theory Spec2Isabelle
  imports Complex_Main
begin

section \<open>Numbers\<close>

text \<open>
  The calibration code computes with C++ \<^verbatim>\<open>double\<close> (\<^verbatim>\<open>SimTK::Real\<close>).
  The embedding reads every \<^verbatim>\<open>double\<close> as a real number and every
  arithmetic operator as the exact operation: rounding, overflow, infinities and
  not-a-number values are outside this reading. The one place where the source's
  arithmetic leaves the reals, a division by zero, is a branch of its own below.
  One property speaks of the bits of a \<^verbatim>\<open>double\<close>; for it a later section
  reads the two expressions of the parameter mapping in binary64 arithmetic. Another
  speaks of infinite and not-a-number values; for it a later section reads
  \<^verbatim>\<open>calc_objective\<close> over doubles that have them.
\<close>

type_synonym double = real

section \<open>The contact force law of the bouncing ball\<close>

text \<open>
  \<^verbatim>\<open>template <typename T, typename TStiffness>
  T contact_force(const TStiffness& stiffness, const T& y)\<close>,
  with \<^verbatim>\<open>fmax\<close> as \<open>max\<close>.
\<close>

definition contact_force :: "double \<Rightarrow> double \<Rightarrow> double" where
  "contact_force stiffness y =
     (let stiffness_fictitious = (1.0 :: double);
          ground_height = (0 :: double);
          depth = ground_height - y;
          depth_pos = max 0 depth;
          contact_normal_force = stiffness * depth_pos + stiffness_fictitious * depth
      in contact_normal_force)"

section \<open>The model, its components and the OpenSim library\<close>

text \<open>
  \<^verbatim>\<open>SimTK::Vec3\<close>. The calibration code reads and writes component 1 (the
  vertical one) only; an index past 1 selects the last component.
\<close>

datatype Vec3 = Vec3 double double double

fun vec_get :: "Vec3 \<Rightarrow> nat \<Rightarrow> double" where
  "vec_get (Vec3 a b c) i = (if i = 0 then a else if i = 1 then b else c)"

fun vec_set :: "Vec3 \<Rightarrow> nat \<Rightarrow> double \<Rightarrow> Vec3" where
  "vec_set (Vec3 a b c) i v =
     (if i = 0 then Vec3 v b c else if i = 1 then Vec3 a v c else Vec3 a b v)"

fun vec_norm :: "Vec3 \<Rightarrow> double" where
  "vec_norm (Vec3 a b c) = sqrt (a * a + b * b + c * c)"

text \<open>
  Modelled from the spec: the classes \<^verbatim>\<open>Marker\<close>,
  \<^verbatim>\<open>AckermannVanDenBogert2010Force\<close>, \<^verbatim>\<open>Model\<close> and \<^verbatim>\<open>SimTK::State\<close> are
  declared outside the two source files. A marker
  (\<^verbatim>\<open>new Marker(name, calcn, SimTK::Vec3(x, -0.027, 0.0))\<close>) has a frame and a
  location, a contact element the properties \<^verbatim>\<open>addContact\<close> sets. A model keeps
  its markers by name and its contact elements in the order
  \<^verbatim>\<open>updComponentList\<close> visits them; \<open>system\<close> is the \<^verbatim>\<open>SimTK::System\<close>
  the last \<^verbatim>\<open>initSystem()\<close> built, if any. A state is a time with generalized
  coordinates and speeds.
\<close>

record Marker =
  parent_frame :: string
  location :: Vec3

record AckermannVanDenBogert2010Force =
  force_name :: string
  get_stiffness :: double
  friction_coefficient :: double
  tangent_velocity_scaling_factor :: double
  station :: string

record 'sys Model =
  markers :: "string \<rightharpoonup> Marker"
  forces :: "AckermannVanDenBogert2010Force list"
  gravity :: Vec3
  system :: "'sys option"

record State =
  getTime :: double
  coordinates :: "double list"
  speeds :: "double list"

text \<open>
  The OpenSim and Simbody operations the calibration code calls are library code
  outside the two source files. They are parameters of the embedding: the system
  built from a model's properties, the realization of a state to the velocity stage,
  the force of one contact element at a state, and the total mass.
\<close>

record 'sys OpenSim =
  buildSystem ::
    "(string \<rightharpoonup> Marker) \<Rightarrow> AckermannVanDenBogert2010Force list \<Rightarrow> Vec3 \<Rightarrow> 'sys"
  realizeVelocity :: "'sys Model \<Rightarrow> State \<Rightarrow> State"
  calcContactForce :: "'sys Model \<Rightarrow> AckermannVanDenBogert2010Force \<Rightarrow> State \<Rightarrow> Vec3"
  getTotalMass :: "'sys Model \<Rightarrow> State \<Rightarrow> double"

text \<open>
  Modelled from the spec: \<^verbatim>\<open>Model::initSystem()\<close> is outside the two source
  files; the spec describes it as the structural re-initialization of the model after
  the parameters are applied. It rebuilds the system from the model's current
  properties and leaves the properties as they are.
\<close>

definition initSystem :: "'sys OpenSim \<Rightarrow> 'sys Model \<Rightarrow> 'sys Model" where
  "initSystem lib model =
     model\<lparr>system := Some (buildSystem lib (markers model) (forces model) (gravity model))\<rparr>"

text \<open>
  What the embedding returns where the C++ code does not return a real number: an
  exception of \<^verbatim>\<open>updComponent\<close> for a name the model does not have, an index
  outside a vector (an Eigen assertion, undefined behaviour without it),
  \<^verbatim>\<open>front()\<close> of an empty trajectory, and a division by zero (whose
  \<^verbatim>\<open>double\<close> result is infinite or not a number).
\<close>

datatype failure = ComponentNotFound string | IndexOutOfRange | EmptyTrajectory | NotFinite

section \<open>Marker names\<close>

text \<open>\<^verbatim>\<open>std::to_string\<close> of a non-negative \<^verbatim>\<open>int\<close>: its decimal digits.\<close>

definition digit_char :: "nat \<Rightarrow> char" where
  "digit_char d = char_of (48 + d)"

fun to_string :: "nat \<Rightarrow> string" where
  "to_string n = (if n < 10 then [digit_char n] else to_string (n div 10) @ [digit_char (n mod 10)])"

declare to_string.simps [simp del]

definition marker_name :: "nat \<Rightarrow> string" where
  "marker_name icontact = ''marker'' @ to_string icontact"

text \<open>The number a string of decimal digits denotes (used to tell marker names apart).\<close>

definition string_value :: "string \<Rightarrow> nat" where
  "string_value s = foldl (\<lambda>a c. 10 * a + (of_char c - 48)) 0 s"

section \<open>The calibration problem\<close>

type_synonym thread_id = nat

text \<open>
  The members of \<^verbatim>\<open>class ContactCalibration\<close>. \<^verbatim>\<open>m_numContacts\<close> is an
  \<^verbatim>\<open>int\<close> that the constructor also uses as a vector size, so it is a natural
  number here; the spline \<^verbatim>\<open>m_FySpline\<close> is the function
  \<^verbatim>\<open>calcValue\<close> evaluates; the mutex guards nothing but the insertion into
  \<^verbatim>\<open>m_workingModels\<close> and has no field.
\<close>

record 'sys ContactCalibration =
  forceScalingFactor :: double
  m_model :: "'sys Model"
  m_statesTraj :: "State list"
  m_FySpline :: "double \<Rightarrow> double"
  m_numContacts :: nat
  m_workingModels :: "thread_id \<rightharpoonup> 'sys Model"

text \<open>
  The constructor. The force data it reads from a file and fits the spline to are
  outside the embedding: the spline is an argument.
\<close>

definition new_ContactCalibration ::
  "'sys OpenSim \<Rightarrow> 'sys Model \<Rightarrow> State list \<Rightarrow> nat \<Rightarrow> (double \<Rightarrow> double)
     \<Rightarrow> 'sys ContactCalibration" where
  "new_ContactCalibration lib model statesTraj numContacts FySpline =
     \<lparr>forceScalingFactor = 100000000,
      m_model = initSystem lib model,
      m_statesTraj = statesTraj,
      m_FySpline = FySpline,
      m_numContacts = numContacts,
      m_workingModels = Map.empty\<rparr>"

subsection \<open>applyParametersToModel\<close>

text \<open>
  The lambda \<^verbatim>\<open>applyMarkerHeight\<close>: \<^verbatim>\<open>updComponent<Marker>(name)\<close> throws
  when the model has no such marker (the spec's failure for a marker absent from the
  model definition); otherwise component 1 of the marker's location is overwritten.
\<close>

definition applyMarkerHeight :: "string \<Rightarrow> double \<Rightarrow> 'sys Model \<Rightarrow> failure + 'sys Model" where
  "applyMarkerHeight name normHeight model =
     (case markers model name of
        None \<Rightarrow> Inl (ComponentNotFound name)
      | Some marker \<Rightarrow>
          (let lower = - 0.06;
               upper = 0.05
           in Inr (model\<lparr>markers := (markers model)(name \<mapsto>
                 marker\<lparr>location :=
                   vec_set (location marker) 1 (lower + normHeight * (upper - lower))\<rparr>)\<rparr>)))"

text \<open>
  The first loop, over the values \<open>icontact\<close> still to visit. The model is
  mutated in place, so a failure leaves the markers set so far.
\<close>

fun markerLoop :: "double list \<Rightarrow> nat list \<Rightarrow> 'sys Model \<Rightarrow> failure option \<times> 'sys Model" where
  "markerLoop x [] model = (None, model)"
| "markerLoop x (icontact # rest) model =
     (if icontact < length x
      then (case applyMarkerHeight (marker_name icontact) (x ! icontact) model of
              Inl e \<Rightarrow> (Some e, model)
            | Inr model' \<Rightarrow> markerLoop x rest model')
      else (Some IndexOutOfRange, model))"

text \<open>
  The second loop, over the contact elements of the model, with the running index
  \<open>icontact\<close>.
\<close>

fun stiffnessLoop ::
  "double \<Rightarrow> double list \<Rightarrow> nat \<Rightarrow> nat \<Rightarrow> AckermannVanDenBogert2010Force list
     \<Rightarrow> failure option \<times> AckermannVanDenBogert2010Force list" where
  "stiffnessLoop factor x numContacts icontact [] = (None, [])"
| "stiffnessLoop factor x numContacts icontact (contact # rest) =
     (if icontact + numContacts < length x
      then (case stiffnessLoop factor x numContacts (icontact + 1) rest of
              (e, rest') \<Rightarrow>
                (e, contact\<lparr>get_stiffness := factor * (x ! (icontact + numContacts))\<rparr> # rest'))
      else (Some IndexOutOfRange, contact # rest))"

definition applyParametersToModel ::
  "'sys ContactCalibration \<Rightarrow> double list \<Rightarrow> 'sys Model \<Rightarrow> failure option \<times> 'sys Model" where
  "applyParametersToModel this x model =
     (case markerLoop x [0..<m_numContacts this] model of
        (Some e, model') \<Rightarrow> (Some e, model')
      | (None, model') \<Rightarrow>
          (case stiffnessLoop (forceScalingFactor this) x (m_numContacts this) 0 (forces model') of
             (e, forces') \<Rightarrow> (e, model'\<lparr>forces := forces'\<rparr>)))"

subsection \<open>calc\_objective\<close>

text \<open>The inner loop: the vertical contact force summed over the contact elements.\<close>

definition sumContactForceY ::
  "'sys OpenSim \<Rightarrow> 'sys Model \<Rightarrow> AckermannVanDenBogert2010Force list \<Rightarrow> State \<Rightarrow> double" where
  "sumContactForceY lib model contacts state =
     fold (\<lambda>contact simFy. simFy + vec_get (calcContactForce lib model contact state) 1)
       contacts 0"

text \<open>
  The loop over the trajectory. Each state is a copy; it is realized to the velocity
  stage, and the time is read from the realized copy, as in the source.
\<close>

definition sumSquaredError ::
  "'sys OpenSim \<Rightarrow> (double \<Rightarrow> double) \<Rightarrow> 'sys Model \<Rightarrow> State list \<Rightarrow> double" where
  "sumSquaredError lib FySpline model statesTraj =
     fold (\<lambda>state obj_value.
             (let state' = realizeVelocity lib model state;
                  simFy = sumContactForceY lib model (forces model) state';
                  expFy = FySpline (getTime state')
              in obj_value + (simFy - expFy)\<^sup>2))
       statesTraj 0"

text \<open>
  The working model of the calling thread: a copy of \<^verbatim>\<open>m_model\<close>, initialized,
  is entered for a thread the map does not have yet.
\<close>

definition acquireWorkingModel ::
  "'sys OpenSim \<Rightarrow> 'sys ContactCalibration \<Rightarrow> thread_id \<Rightarrow> (thread_id \<rightharpoonup> 'sys Model)" where
  "acquireWorkingModel lib this thread_id =
     (if m_workingModels this thread_id = None
      then (m_workingModels this)(thread_id \<mapsto> initSystem lib (m_model this))
      else m_workingModels this)"

text \<open>
  \<^verbatim>\<open>calc_objective(x, obj_value)\<close> on the thread \<open>thread_id\<close>: the value
  written to \<^verbatim>\<open>obj_value\<close> (or the failure) and the members afterwards.
\<close>

definition calc_objective ::
  "'sys OpenSim \<Rightarrow> 'sys ContactCalibration \<Rightarrow> thread_id \<Rightarrow> double list
     \<Rightarrow> (failure + double) \<times> 'sys ContactCalibration" where
  "calc_objective lib this thread_id x =
     (let workingModels = acquireWorkingModel lib this thread_id;
          model = the (workingModels thread_id)
      in case applyParametersToModel this x model of
           (Some e, model1) \<Rightarrow>
             (Inl e, this\<lparr>m_workingModels := workingModels(thread_id \<mapsto> model1)\<rparr>)
         | (None, model1) \<Rightarrow>
             (let model2 = initSystem lib model1;
                  this' = this\<lparr>m_workingModels := workingModels(thread_id \<mapsto> model2)\<rparr>;
                  obj_value = sumSquaredError lib (m_FySpline this) model2 (m_statesTraj this)
              in if m_statesTraj this = [] then (Inl EmptyTrajectory, this')
                 else (let mg = getTotalMass lib model2 (hd (m_statesTraj this))
                                  * vec_norm (gravity model2);
                           divisor = mg * real (length (m_statesTraj this))
                       in if divisor = 0 then (Inl NotFinite, this')
                          else (Inr (obj_value / divisor), this'))))"

subsection \<open>printContactComparison\<close>

text \<open>
  The table handed to \<^verbatim>\<open>STOFileAdapter::write\<close>: the file name, the column
  labels and one row per state (the time, then the simulated and the experimental
  force).
\<close>

type_synonym comparison = "string \<times> string list \<times> (double \<times> double list) list"

definition comparisonRow ::
  "'sys OpenSim \<Rightarrow> (double \<Rightarrow> double) \<Rightarrow> 'sys Model \<Rightarrow> State \<Rightarrow> double \<times> double list" where
  "comparisonRow lib FySpline model state =
     (let state' = realizeVelocity lib model state
      in (getTime state',
          [sumContactForceY lib model (forces model) state', FySpline (getTime state')]))"

definition printContactComparison ::
  "'sys OpenSim \<Rightarrow> 'sys ContactCalibration \<Rightarrow> double list \<Rightarrow> string
     \<Rightarrow> (failure + comparison) \<times> 'sys ContactCalibration" where
  "printContactComparison lib this x filename =
     (case applyParametersToModel this x (m_model this) of
        (Some e, model1) \<Rightarrow> (Inl e, this\<lparr>m_model := model1\<rparr>)
      | (None, model1) \<Rightarrow>
          (let model2 = initSystem lib model1
           in (Inr (filename, [''simulation'', ''experiment''],
                    map (comparisonRow lib (m_FySpline this) model2) (m_statesTraj this)),
               this\<lparr>m_model := model2\<rparr>)))"

subsection \<open>Sequences of calls\<close>

text \<open>
  The two operations the optimizer and the reporting code invoke on one
  \<^verbatim>\<open>ContactCalibration\<close> object, and the members after a sequence of them.
\<close>

datatype operation =
  Evaluate thread_id "double list"
| PrintComparison "double list" string

fun perform ::
  "'sys OpenSim \<Rightarrow> operation \<Rightarrow> 'sys ContactCalibration \<Rightarrow> 'sys ContactCalibration" where
  "perform lib (Evaluate thread_id x) this = snd (calc_objective lib this thread_id x)"
| "perform lib (PrintComparison x filename) this = snd (printContactComparison lib this x filename)"

definition performAll ::
  "'sys OpenSim \<Rightarrow> operation list \<Rightarrow> 'sys ContactCalibration \<Rightarrow> 'sys ContactCalibration" where
  "performAll lib ops this = fold (perform lib) ops this"

subsection \<open>The model calibrateContact builds\<close>

text \<open>
  \<^verbatim>\<open>addContact(model, markerName, stiffness = 5e7)\<close> of the source file, and
  \<^verbatim>\<open>model.addMarker(new Marker(name, frame, location))\<close>, which is outside the
  source files and enters the marker under its name (a marker added under a name the
  model already has replaces the old one here).
\<close>

definition addContact :: "'sys Model \<Rightarrow> string \<Rightarrow> double \<Rightarrow> 'sys Model" where
  "addContact model markerName stiffness_value =
     (let friction = 0.95;
          velocity_scaling = 0.3;
          contact = \<lparr>force_name = markerName @ ''_contact'',
                     get_stiffness = stiffness_value,
                     friction_coefficient = friction,
                     tangent_velocity_scaling_factor = velocity_scaling,
                     station = markerName\<rparr>
      in model\<lparr>forces := forces model @ [contact]\<rparr>)"

definition addMarker :: "'sys Model \<Rightarrow> string \<Rightarrow> string \<Rightarrow> Vec3 \<Rightarrow> 'sys Model" where
  "addMarker model name frame loc =
     model\<lparr>markers := (markers model)(name \<mapsto> \<lparr>parent_frame = frame, location = loc\<rparr>)\<rparr>"

definition numContacts :: nat where
  "numContacts = 6"

text \<open>The loop of \<^verbatim>\<open>calibrateContact\<close> that spreads contact points across the foot.\<close>

definition addContactPoint :: "nat \<Rightarrow> 'sys Model \<Rightarrow> 'sys Model" where
  "addContactPoint icontact model =
     (let xHeel = - 0.03;
          xToes = 0.28;
          name = marker_name icontact;
          xpos = xHeel + real icontact / real (numContacts - 1) * (xToes - xHeel)
      in addContact (addMarker model name ''calcn_r'' (Vec3 xpos (- 0.027) 0.0)) name 50000000)"

definition addContactPoints :: "'sys Model \<Rightarrow> 'sys Model" where
  "addContactPoints model = fold addContactPoint [0..<numContacts] model"

section \<open>Notions used to state and prove the properties\<close>

text \<open>
  The height \<^verbatim>\<open>applyMarkerHeight\<close> computes from a normalized height, and a
  marker with component 1 of its location replaced.
\<close>

definition physicalHeight :: "double \<Rightarrow> double" where
  "physicalHeight normHeight =
     (let lower = - 0.06; upper = 0.05 in lower + normHeight * (upper - lower))"

definition setMarkerY :: "double \<Rightarrow> Marker \<Rightarrow> Marker" where
  "setMarkerY h marker = marker\<lparr>location := vec_set (location marker) 1 h\<rparr>"

text \<open>
  A model the parameters can be applied to: it has the markers
  \<^verbatim>\<open>marker0\<close>, ..., and as many contact elements as the problem has contacts.
\<close>

definition validModel :: "nat \<Rightarrow> 'sys Model \<Rightarrow> bool" where
  "validModel n model =
     ((\<forall>i<n. markers model (marker_name i) \<noteq> None) \<and> length (forces model) = n)"

text \<open>
  Two markers that differ at most in the height, two contact elements that differ at
  most in the stiffness, and two models that differ at most in what
  \<^verbatim>\<open>applyParametersToModel\<close> overwrites and in the system built.
\<close>

definition marker_eq :: "Marker \<Rightarrow> Marker \<Rightarrow> bool" where
  "marker_eq a b = (\<forall>h. setMarkerY h a = setMarkerY h b)"

definition force_eq ::
  "AckermannVanDenBogert2010Force \<Rightarrow> AckermannVanDenBogert2010Force \<Rightarrow> bool" where
  "force_eq a b = (\<forall>k. a\<lparr>get_stiffness := k\<rparr> = b\<lparr>get_stiffness := k\<rparr>)"

definition markers_rel :: "(string \<rightharpoonup> Marker) \<Rightarrow> (string \<rightharpoonup> Marker) \<Rightarrow> bool" where
  "markers_rel ms ms0 = (\<forall>k. rel_option marker_eq (ms k) (ms0 k))"

definition similar :: "nat \<Rightarrow> 'sys Model \<Rightarrow> 'sys Model \<Rightarrow> bool" where
  "similar n model model0 =
     (gravity model = gravity model0
      \<and> list_all2 force_eq (forces model) (forces model0)
      \<and> markers_rel (markers model) (markers model0)
      \<and> (\<forall>k. k \<notin> marker_name ` {..<n} \<longrightarrow> markers model k = markers model0 k))"

text \<open>
  The last steps of \<^verbatim>\<open>calc_objective\<close> on an initialized model, the value
  \<^verbatim>\<open>calc_objective\<close> computes when it works on a given model, and the model it
  leaves behind.
\<close>

definition normalizedError ::
  "'sys OpenSim \<Rightarrow> 'sys ContactCalibration \<Rightarrow> 'sys Model \<Rightarrow> failure + double" where
  "normalizedError lib this model =
     (if m_statesTraj this = [] then Inl EmptyTrajectory
      else if getTotalMass lib model (hd (m_statesTraj this)) * vec_norm (gravity model)
                * real (length (m_statesTraj this)) = 0
      then Inl NotFinite
      else Inr (sumSquaredError lib (m_FySpline this) model (m_statesTraj this)
                / (getTotalMass lib model (hd (m_statesTraj this)) * vec_norm (gravity model)
                   * real (length (m_statesTraj this)))))"

definition objectiveOf ::
  "'sys OpenSim \<Rightarrow> 'sys ContactCalibration \<Rightarrow> 'sys Model \<Rightarrow> double list \<Rightarrow> failure + double" where
  "objectiveOf lib this model x =
     (case applyParametersToModel this x model of
        (Some e, model1) \<Rightarrow> Inl e
      | (None, model1) \<Rightarrow> normalizedError lib this (initSystem lib model1))"

definition modelAfter ::
  "'sys OpenSim \<Rightarrow> 'sys ContactCalibration \<Rightarrow> double list \<Rightarrow> 'sys Model \<Rightarrow> 'sys Model" where
  "modelAfter lib this x model =
     (case applyParametersToModel this x model of
        (Some e, model1) \<Rightarrow> model1
      | (None, model1) \<Rightarrow> initSystem lib model1)"

text \<open>
  The quantities the objective is stated in: the vertical contact force summed over
  the contact elements of a model at the realized copy of a state, and the model
  \<^verbatim>\<open>m_model\<close> with the parameters applied and the system rebuilt.
\<close>

definition simulatedFy :: "'sys OpenSim \<Rightarrow> 'sys Model \<Rightarrow> State \<Rightarrow> double" where
  "simulatedFy lib model state =
     (\<Sum>contact\<leftarrow>forces model.
        vec_get (calcContactForce lib model contact (realizeVelocity lib model state)) 1)"

definition parameterizedModel ::
  "'sys OpenSim \<Rightarrow> 'sys ContactCalibration \<Rightarrow> double list \<Rightarrow> 'sys Model" where
  "parameterizedModel lib this x =
     initSystem lib (snd (applyParametersToModel this x (m_model this)))"

text \<open>
  The members of a problem that no operation writes, and the invariant of the models
  it holds: each differs from a reference model at most in the calibrated quantities.
\<close>

definition sameProblem :: "'sys ContactCalibration \<Rightarrow> 'sys ContactCalibration \<Rightarrow> bool" where
  "sameProblem this this' =
     (forceScalingFactor this' = forceScalingFactor this
      \<and> m_statesTraj this' = m_statesTraj this
      \<and> m_FySpline this' = m_FySpline this
      \<and> m_numContacts this' = m_numContacts this)"

definition consistent :: "'sys Model \<Rightarrow> 'sys ContactCalibration \<Rightarrow> bool" where
  "consistent model0 this =
     (similar (m_numContacts this) (m_model this) model0
      \<and> (\<forall>t model. m_workingModels this t = Some model
            \<longrightarrow> similar (m_numContacts this) model model0))"

section \<open>Evaluations on several threads at once\<close>

text \<open>
  The optimizer calls \<^verbatim>\<open>calc_objective\<close> from several threads at once. A call
  on a thread passes through the statements of the function: the test
  \<^verbatim>\<open>m_workingModels.count(thread_id) == 0\<close>, the insertion of a copy of
  \<^verbatim>\<open>m_model\<close> under the mutex, \<^verbatim>\<open>initSystem()\<close> on the new entry, and the
  rest of the function, which works on the entry of the thread alone. A thread is
  between two of them, or in no call (\<open>Idle\<close>, or \<open>Returned\<close> with the
  parameters and the result of its last call). An execution has the members of the
  problem and the place of every thread. It also counts, for every thread, the copies
  of \<^verbatim>\<open>m_model\<close> made for it so far: a number the program does not keep, which
  the statements about the working models speak of.
\<close>

datatype progress =
  Idle
| Called "double list"
| Locking "double list"
| Initializing "double list"
| Working "double list"
| Returned "double list" "failure + double"

record 'sys execution =
  problem :: "'sys ContactCalibration"
  control :: "thread_id \<Rightarrow> progress"
  created :: "thread_id \<Rightarrow> nat"

definition setWorkingModel ::
  "thread_id \<Rightarrow> 'sys Model \<Rightarrow> progress \<Rightarrow> 'sys execution \<Rightarrow> 'sys execution" where
  "setWorkingModel t model p s =
     s\<lparr>problem := (problem s)\<lparr>m_workingModels := (m_workingModels (problem s))(t \<mapsto> model)\<rparr>,
       control := (control s)(t := p)\<rparr>"

text \<open>
  One statement of one thread. The statements of different threads follow each other
  in any order; each is taken as a whole (the memory model of C++ is outside the
  embedding). The insertion \<^verbatim>\<open>m_workingModels[thread_id] = m_model\<close> is the one
  statement that copies a model, and the one that counts a copy.
\<close>

inductive step :: "'sys OpenSim \<Rightarrow> 'sys execution \<Rightarrow> 'sys execution \<Rightarrow> bool"
  for lib :: "'sys OpenSim" where
  call:
    "control s t = Idle \<or> (\<exists>x' r. control s t = Returned x' r)
     \<Longrightarrow> step lib s (s\<lparr>control := (control s)(t := Called x)\<rparr>)"
| check_absent:
    "control s t = Called x \<Longrightarrow> m_workingModels (problem s) t = None
     \<Longrightarrow> step lib s (s\<lparr>control := (control s)(t := Locking x)\<rparr>)"
| check_present:
    "control s t = Called x \<Longrightarrow> m_workingModels (problem s) t \<noteq> None
     \<Longrightarrow> step lib s (s\<lparr>control := (control s)(t := Working x)\<rparr>)"
| insert:
    "control s t = Locking x
     \<Longrightarrow> step lib s ((setWorkingModel t (m_model (problem s)) (Initializing x) s)
                       \<lparr>created := (created s)(t := Suc (created s t))\<rparr>)"
| initialize:
    "control s t = Initializing x \<Longrightarrow> m_workingModels (problem s) t = Some model
     \<Longrightarrow> step lib s (setWorkingModel t (initSystem lib model) (Working x) s)"
| work:
    "control s t = Working x \<Longrightarrow> m_workingModels (problem s) t = Some model
     \<Longrightarrow> step lib s (setWorkingModel t (modelAfter lib (problem s) x model)
                       (Returned x (objectiveOf lib (problem s) model x)) s)"

text \<open>Any number of statements of any threads, and the execution before the first call.\<close>

inductive executes :: "'sys OpenSim \<Rightarrow> 'sys execution \<Rightarrow> 'sys execution \<Rightarrow> bool"
  for lib :: "'sys OpenSim" where
  start: "executes lib s s"
| continue: "executes lib s s' \<Longrightarrow> step lib s' s'' \<Longrightarrow> executes lib s s''"

definition initially :: "'sys ContactCalibration \<Rightarrow> 'sys execution" where
  "initially this = \<lparr>problem = this, control = (\<lambda>t. Idle), created = (\<lambda>t. 0)\<rparr>"

text \<open>
  The invariant of an execution: the constant members are those of the problem at the
  start, every model differs from \<^verbatim>\<open>m_model\<close> at most in the calibrated
  quantities, a thread about to insert has no working model, a thread past the
  insertion has one, a returned result is the value for its parameters, and one copy
  has been made for a thread that has a working model, none for any other.
\<close>

definition orderly :: "'sys OpenSim \<Rightarrow> 'sys ContactCalibration \<Rightarrow> 'sys execution \<Rightarrow> bool" where
  "orderly lib this s =
     (sameProblem this (problem s)
      \<and> m_model (problem s) = m_model this
      \<and> consistent (m_model this) (problem s)
      \<and> (\<forall>t x. control s t = Locking x \<longrightarrow> m_workingModels (problem s) t = None)
      \<and> (\<forall>t x. control s t = Initializing x \<or> control s t = Working x
            \<longrightarrow> m_workingModels (problem s) t \<noteq> None)
      \<and> (\<forall>t x r. control s t = Returned x r
            \<longrightarrow> m_workingModels (problem s) t \<noteq> None
                \<and> r = objectiveOf lib this (m_model this) x)
      \<and> (\<forall>t. created s t = (if m_workingModels (problem s) t = None then 0 else 1)))"

section \<open>The parameter mapping in double precision\<close>

text \<open>
  Where a property speaks of the bits of a \<^verbatim>\<open>double\<close>, the two expressions of
  \<^verbatim>\<open>applyParametersToModel\<close> are read in IEEE 754 binary64 arithmetic. A pair
  \<open>(m, e)\<close> stands for the number \<open>m \<cdot> 2\<^sup>e\<close>; it is a binary64 number when
  the significand has at most 53 bits and the exponent is in range.
\<close>

type_synonym binary64 = "int \<times> int"

definition b64_value :: "binary64 \<Rightarrow> real" where
  "b64_value d = (case d of (m, e) \<Rightarrow>
     if 0 \<le> e then of_int m * 2 ^ nat e else of_int m / 2 ^ nat (- e))"

text \<open>The number of bits of a positive integer.\<close>

function bit_length :: "int \<Rightarrow> int" where
  "bit_length n = (if n \<le> 0 then 0 else 1 + bit_length (n div 2))"
  by pat_completeness auto
termination
  by (relation "measure nat") auto

declare bit_length.simps [simp del]

definition is_binary64 :: "binary64 \<Rightarrow> bool" where
  "is_binary64 d = (case d of (m, e) \<Rightarrow> \<bar>m\<bar> < 2 ^ 53 \<and> - 1074 \<le> e \<and> e \<le> 971)"

text \<open>
  Rounding of the integer multiple \<open>M \<cdot> 2\<^sup>E\<close> to 53 significant bits, to the
  nearest and on a tie to the even significand. The exponent range is not part of the
  rounding: every value below lies far inside it.
\<close>

definition round53 :: "int \<Rightarrow> int \<Rightarrow> binary64" where
  "round53 M E =
     (let k = bit_length \<bar>M\<bar> - 53
      in if k \<le> 0 then (M, E)
         else (let q = M div 2 ^ nat k;
                   r = M mod 2 ^ nat k;
                   half = 2 ^ nat (k - 1);
                   m = (if r < half then q
                        else if half < r then q + 1
                        else if even q then q else q + 1)
               in (m, E + k)))"

text \<open>
  Sum, difference and product: the exact result, rounded.
\<close>

definition b64_add :: "binary64 \<Rightarrow> binary64 \<Rightarrow> binary64" where
  "b64_add a b = (case (a, b) of ((m1, e1), (m2, e2)) \<Rightarrow>
     (let e = min e1 e2 in round53 (m1 * 2 ^ nat (e1 - e) + m2 * 2 ^ nat (e2 - e)) e))"

definition b64_sub :: "binary64 \<Rightarrow> binary64 \<Rightarrow> binary64" where
  "b64_sub a b = (case b of (m2, e2) \<Rightarrow> b64_add a (- m2, e2))"

definition b64_mult :: "binary64 \<Rightarrow> binary64 \<Rightarrow> binary64" where
  "b64_mult a b = (case (a, b) of ((m1, e1), (m2, e2)) \<Rightarrow> round53 (m1 * m2) (e1 + e2))"

text \<open>
  The binary64 number a decimal literal \<open>num / den\<close> (with \<open>den > 0\<close>) denotes:
  the quotient is cut to at least 54 bits, a last bit records whether anything was cut
  off, and the result is rounded.
\<close>

definition b64_of_fraction :: "int \<Rightarrow> int \<Rightarrow> binary64" where
  "b64_of_fraction num den =
     (if num = 0 then (0, 0)
      else (let a = \<bar>num\<bar>;
                s = 54 + bit_length den - bit_length a;
                scaled = (if 0 \<le> s then a * 2 ^ nat s else a);
                divisor = (if 0 \<le> s then den else den * 2 ^ nat (- s));
                t = scaled div divisor;
                sticky = (if scaled mod divisor = 0 then 0 else 1)
            in case round53 (2 * t + sticky) (- s - 1) of
                 (m, e) \<Rightarrow> (if num < 0 then - m else m, e)))"

text \<open>
  \<^verbatim>\<open>lower + normHeight * (upper - lower)\<close> with \<^verbatim>\<open>lower = -0.06\<close> and
  \<^verbatim>\<open>upper = 0.05\<close>, and \<^verbatim>\<open>forceScalingFactor * x[icontact + m_numContacts]\<close>
  with \<^verbatim>\<open>forceScalingFactor = 1e8\<close>.
\<close>

definition markerHeight64 :: "binary64 \<Rightarrow> binary64" where
  "markerHeight64 normHeight =
     (let lower = b64_of_fraction (- 6) 100;
          upper = b64_of_fraction 5 100
      in b64_add lower (b64_mult normHeight (b64_sub upper lower)))"

definition stiffness64 :: "binary64 \<Rightarrow> binary64" where
  "stiffness64 normStiffness = b64_mult (b64_of_fraction 100000000 1) normStiffness"

section \<open>Doubles with infinite and not-a-number values\<close>

text \<open>
  A \<^verbatim>\<open>double\<close> is a finite number, \<open>+\<infinity>\<close>, \<open>-\<infinity>\<close> or not a number. Where
  a property speaks of the last three, the finite values are the real numbers, as
  before, and the operators follow IEEE 754 on the others: not-a-number is
  absorbing, \<open>\<infinity> - \<infinity>\<close>, \<open>0 \<cdot> \<infinity>\<close>, \<open>\<infinity> / \<infinity>\<close> and \<open>0 / 0\<close> are not a number,
  a finite number divided by an infinite one is \<open>0\<close>, and a number other than
  \<open>0\<close> divided by \<open>0\<close> is infinite. A zero is read as \<open>+0\<close> where the sign of
  a zero decides between \<open>+\<infinity>\<close> and \<open>-\<infinity>\<close>. Overflow of a finite result stays
  outside the reading.
\<close>

datatype xdouble = Finite double | PInf | NInf | NaN


fun xminus :: "xdouble \<Rightarrow> xdouble" where
  "xminus (Finite v) = Finite (- v)"
| "xminus PInf = NInf"
| "xminus NInf = PInf"
| "xminus NaN = NaN"

fun xadd :: "xdouble \<Rightarrow> xdouble \<Rightarrow> xdouble" where
  "xadd (Finite a) (Finite b) = Finite (a + b)"
| "xadd (Finite a) PInf = PInf"
| "xadd (Finite a) NInf = NInf"
| "xadd PInf (Finite b) = PInf"
| "xadd PInf PInf = PInf"
| "xadd PInf NInf = NaN"
| "xadd NInf (Finite b) = NInf"
| "xadd NInf PInf = NaN"
| "xadd NInf NInf = NInf"
| "xadd NaN b = NaN"
| "xadd a NaN = NaN"

text \<open>\<^verbatim>\<open>a - b\<close> is \<open>a + (- b)\<close>, and \<^verbatim>\<open>pow(a, 2)\<close> is \<open>a \<cdot> a\<close>.\<close>

definition xsub :: "xdouble \<Rightarrow> xdouble \<Rightarrow> xdouble" where
  "xsub a b = xadd a (xminus b)"

fun xmult :: "xdouble \<Rightarrow> xdouble \<Rightarrow> xdouble" where
  "xmult (Finite a) (Finite b) = Finite (a * b)"
| "xmult (Finite a) PInf = (if a = 0 then NaN else if 0 < a then PInf else NInf)"
| "xmult (Finite a) NInf = (if a = 0 then NaN else if 0 < a then NInf else PInf)"
| "xmult PInf (Finite b) = (if b = 0 then NaN else if 0 < b then PInf else NInf)"
| "xmult NInf (Finite b) = (if b = 0 then NaN else if 0 < b then NInf else PInf)"
| "xmult PInf PInf = PInf"
| "xmult PInf NInf = NInf"
| "xmult NInf PInf = NInf"
| "xmult NInf NInf = PInf"
| "xmult NaN b = NaN"
| "xmult a NaN = NaN"

fun xdiv :: "xdouble \<Rightarrow> xdouble \<Rightarrow> xdouble" where
  "xdiv (Finite a) (Finite b) =
     (if b = 0 then (if a = 0 then NaN else if 0 < a then PInf else NInf) else Finite (a / b))"
| "xdiv (Finite a) PInf = Finite 0"
| "xdiv (Finite a) NInf = Finite 0"
| "xdiv PInf (Finite b) = (if 0 \<le> b then PInf else NInf)"
| "xdiv NInf (Finite b) = (if 0 \<le> b then NInf else PInf)"
| "xdiv PInf PInf = NaN"
| "xdiv PInf NInf = NaN"
| "xdiv NInf PInf = NaN"
| "xdiv NInf NInf = NaN"
| "xdiv NaN b = NaN"
| "xdiv a NaN = NaN"

definition xsquare :: "xdouble \<Rightarrow> xdouble" where
  "xsquare a = xmult a a"

text \<open>
  The library over such values: a state whose time, coordinates and speeds may be
  infinite or not a number, a force with such components, such a total mass. As
  before the operations are parameters. The spline is a function between such values.
\<close>

datatype XVec3 = XVec3 xdouble xdouble xdouble

fun xvec_get :: "XVec3 \<Rightarrow> nat \<Rightarrow> xdouble" where
  "xvec_get (XVec3 a b c) i = (if i = 0 then a else if i = 1 then b else c)"

record XState =
  getTimeX :: xdouble
  coordinatesX :: "xdouble list"
  speedsX :: "xdouble list"

record 'sys OpenSimX =
  realizeVelocityX :: "'sys Model \<Rightarrow> XState \<Rightarrow> XState"
  calcContactForceX :: "'sys Model \<Rightarrow> AckermannVanDenBogert2010Force \<Rightarrow> XState \<Rightarrow> XVec3"
  getTotalMassX :: "'sys Model \<Rightarrow> XState \<Rightarrow> xdouble"

text \<open>
  The two loops of \<^verbatim>\<open>calc_objective\<close> and the function itself, as above, with
  the trajectory and the spline (the members \<^verbatim>\<open>m_statesTraj\<close> and
  \<^verbatim>\<open>m_FySpline\<close>) given as values that may be infinite or not a number. The
  parameters \<open>x\<close>, the model and its gravity are finite, so
  \<^verbatim>\<open>applyParametersToModel\<close> is the function above. A division by zero is no
  failure here: its result is the infinite or not-a-number value of IEEE 754.
\<close>

definition sumContactForceYX ::
  "'sys OpenSimX \<Rightarrow> 'sys Model \<Rightarrow> AckermannVanDenBogert2010Force list \<Rightarrow> XState \<Rightarrow> xdouble" where
  "sumContactForceYX libx model contacts state =
     fold (\<lambda>contact simFy. xadd simFy (xvec_get (calcContactForceX libx model contact state) 1))
       contacts (Finite 0)"

definition sumSquaredErrorX ::
  "'sys OpenSimX \<Rightarrow> (xdouble \<Rightarrow> xdouble) \<Rightarrow> 'sys Model \<Rightarrow> XState list \<Rightarrow> xdouble" where
  "sumSquaredErrorX libx FySpline model statesTraj =
     fold (\<lambda>state obj_value.
             (let state' = realizeVelocityX libx model state;
                  simFy = sumContactForceYX libx model (forces model) state';
                  expFy = FySpline (getTimeX state')
              in xadd obj_value (xsquare (xsub simFy expFy))))
       statesTraj (Finite 0)"

definition calc_objectiveX ::
  "'sys OpenSim \<Rightarrow> 'sys OpenSimX \<Rightarrow> 'sys ContactCalibration \<Rightarrow> XState list
     \<Rightarrow> (xdouble \<Rightarrow> xdouble) \<Rightarrow> thread_id \<Rightarrow> double list
     \<Rightarrow> (failure + xdouble) \<times> 'sys ContactCalibration" where
  "calc_objectiveX lib libx this statesTraj FySpline thread_id x =
     (let workingModels = acquireWorkingModel lib this thread_id;
          model = the (workingModels thread_id)
      in case applyParametersToModel this x model of
           (Some e, model1) \<Rightarrow>
             (Inl e, this\<lparr>m_workingModels := workingModels(thread_id \<mapsto> model1)\<rparr>)
         | (None, model1) \<Rightarrow>
             (let model2 = initSystem lib model1;
                  this' = this\<lparr>m_workingModels := workingModels(thread_id \<mapsto> model2)\<rparr>;
                  obj_value = sumSquaredErrorX libx FySpline model2 statesTraj
              in if statesTraj = [] then (Inl EmptyTrajectory, this')
                 else (let mg = xmult (getTotalMassX libx model2 (hd statesTraj))
                                  (Finite (vec_norm (gravity model2)));
                           divisor = xmult mg (Finite (real (length statesTraj)))
                       in (Inr (xdiv obj_value divisor), this'))))"


definition normalizedErrorX ::
  "'sys OpenSimX \<Rightarrow> XState list \<Rightarrow> (xdouble \<Rightarrow> xdouble) \<Rightarrow> 'sys Model \<Rightarrow> failure + xdouble" where
  "normalizedErrorX libx statesTraj FySpline model =
     (if statesTraj = [] then Inl EmptyTrajectory
      else Inr (xdiv (sumSquaredErrorX libx FySpline model statesTraj)
                  (xmult (xmult (getTotalMassX libx model (hd statesTraj))
                            (Finite (vec_norm (gravity model))))
                     (Finite (real (length statesTraj))))))"

text \<open>
  A trajectory, a library and a spline of finite values, as values of this reading
  (the library is given a state of finite values; for any other the choice made here
  plays no role in what follows).
\<close>

fun the_finite :: "xdouble \<Rightarrow> double" where
  "the_finite (Finite v) = v"
| "the_finite PInf = 0"
| "the_finite NInf = 0"
| "the_finite NaN = 0"

definition xstate :: "State \<Rightarrow> XState" where
  "xstate state =
     \<lparr>getTimeX = Finite (getTime state), coordinatesX = map Finite (coordinates state),
      speedsX = map Finite (speeds state)\<rparr>"

definition state_of :: "XState \<Rightarrow> State" where
  "state_of state =
     \<lparr>getTime = the_finite (getTimeX state), coordinates = map the_finite (coordinatesX state),
      speeds = map the_finite (speedsX state)\<rparr>"

fun xvec :: "Vec3 \<Rightarrow> XVec3" where
  "xvec (Vec3 a b c) = XVec3 (Finite a) (Finite b) (Finite c)"

definition finiteLib :: "'sys OpenSim \<Rightarrow> 'sys OpenSimX" where
  "finiteLib lib =
     \<lparr>realizeVelocityX = (\<lambda>model state. xstate (realizeVelocity lib model (state_of state))),
      calcContactForceX = (\<lambda>model contact state. xvec (calcContactForce lib model contact (state_of state))),
      getTotalMassX = (\<lambda>model state. Finite (getTotalMass lib model (state_of state)))\<rparr>"

definition finiteSpline :: "(double \<Rightarrow> double) \<Rightarrow> xdouble \<Rightarrow> xdouble" where
  "finiteSpline FySpline time = Finite (FySpline (the_finite time))"

section \<open>A worked example\<close>

text \<open>
  An instance of the library for the worked examples: the system carries nothing,
  realizing a state leaves it as it is, a contact element pushes vertically with the
  force law above at the height of its marker plus the first coordinate of the state,
  and the model weighs 75 kg. The model is the one \<^verbatim>\<open>calibrateContact\<close> builds
  on a base without markers and contacts, the trajectory has two states, and the
  experimental force is zero.
\<close>

definition exampleLib :: "unit OpenSim" where
  "exampleLib =
     \<lparr>buildSystem = (\<lambda>ms fs g. ()),
      realizeVelocity = (\<lambda>model state. state),
      calcContactForce = (\<lambda>model contact state.
         Vec3 0
           (contact_force (get_stiffness contact)
              (vec_get (location (the (markers model (station contact)))) 1
                 + hd (coordinates state)))
           0),
      getTotalMass = (\<lambda>model state. 75)\<rparr>"

definition exampleBase :: "unit Model" where
  "exampleBase = \<lparr>markers = Map.empty, forces = [], gravity = Vec3 0 (- 9.80665) 0, system = None\<rparr>"

definition exampleModel :: "unit Model" where
  "exampleModel = addContactPoints exampleBase"

definition exampleTraj :: "State list" where
  "exampleTraj =
     [\<lparr>getTime = 0, coordinates = [0.005], speeds = [0]\<rparr>,
      \<lparr>getTime = 0.01, coordinates = [1.005], speeds = [0]\<rparr>]"

definition exampleX :: "double list" where
  "exampleX = [0.5, 0.5, 0.5, 0.5, 0.5, 0.5, 0.5, 0.5, 0.5, 0.5, 0.5, 0.5]"

definition exampleProblem :: "unit ContactCalibration" where
  "exampleProblem = new_ContactCalibration exampleLib exampleModel exampleTraj 6 (\<lambda>time. 0)"

text \<open>
  An experimental force that is not zero, and the members after a first evaluation on
  thread 3.
\<close>

definition exampleSpline :: "double \<Rightarrow> double" where
  "exampleSpline time = 600 * time"

definition exampleAfterFirst :: "unit ContactCalibration" where
  "exampleAfterFirst = snd (calc_objective exampleLib exampleProblem 3 exampleX)"

text \<open>A parameter vector on the bounds.\<close>

definition boundaryX :: "double list" where
  "boundaryX = [0, 1, 0, 1, 0, 1, 0, 1, 0, 1, 0, 1]"

text \<open>
  Four executions of the worked example: thread 3 has evaluated and then thread 5;
  thread 3 stands before the insertion of its working model; thread 3 has just
  inserted it; and thread 3 has initialized it.
\<close>

definition exampleExecution :: "unit execution" where
  "exampleExecution =
     \<lparr>problem = performAll exampleLib [Evaluate 3 exampleX, Evaluate 5 boundaryX] exampleProblem,
      control = (\<lambda>t. Idle)
        (3 := Returned exampleX (fst (calc_objective exampleLib exampleProblem 3 exampleX)),
         5 := Returned boundaryX
                (fst (calc_objective exampleLib exampleAfterFirst 5 boundaryX))),
      created = (\<lambda>t. 0)(3 := 1, 5 := 1)\<rparr>"










section \<open>Properties of the contact force law\<close>

lemma contact_force_eq: "contact_force stiffness y = stiffness * max 0 (0 - y) + 1 * (0 - y)"
  by (simp add: contact_force_def)

lemma contact_force_above_ground:
  assumes "0 - y \<le> 0"
  shows "contact_force stiffness y = 1 * (0 - y)"
  using assms by (simp add: contact_force_eq max_def)

lemma contact_force_penetrating:
  assumes "0 < 0 - y"
  shows "contact_force stiffness y = (stiffness + 1) * (0 - y)"
  using assms by (simp add: contact_force_eq max_def algebra_simps)

text \<open>
  Claim C10. For every stiffness, the force law evaluated at the ground height
  (height 0, so penetration depth 0) is 0, and the force, as a function of the
  height, is continuous there: the branch without penetration and the penetrating
  branch meet at the ground.
\<close>

theorem contact_force_at_ground:
  "contact_force stiffness 0 = 0 \<and> isCont (contact_force stiffness) 0"
proof -
  have "contact_force stiffness = (\<lambda>y. stiffness * max 0 (0 - y) + 1 * (0 - y))"
    by (rule ext) (rule contact_force_eq)
  moreover have "isCont (\<lambda>y :: real. stiffness * max 0 (0 - y) + 1 * (0 - y)) 0"
    by (intro continuous_intros)
  ultimately have "isCont (contact_force stiffness) 0"
    by simp
  then show ?thesis
    by (simp add: contact_force_eq)
qed

text \<open>
  Claim C2 (as amended). For every stiffness and height the force law returns
  \<open>stiffness \<cdot> max(0, depth) + fictitiousStiffness \<cdot> depth\<close> with
  \<open>depth = groundHeight - height\<close>, \<open>groundHeight = 0\<close> and
  \<open>fictitiousStiffness = 1\<close>. For \<open>depth \<le> 0\<close> the force is
  \<open>fictitiousStiffness \<cdot> depth\<close>, which is not positive. For \<open>depth > 0\<close> the
  force is, in exact arithmetic, strictly increasing in the stiffness, and it is
  strictly increasing in the depth when the stiffness is greater than
  \<open>- fictitiousStiffness = - 1\<close>, so for every stiffness that is not negative.
\<close>

theorem contact_force_law:
  "contact_force k y = k * max 0 (0 - y) + 1 * (0 - y)
   \<and> (0 - y \<le> 0 \<longrightarrow> contact_force k y = 1 * (0 - y) \<and> contact_force k y \<le> 0)
   \<and> (0 < 0 - y \<and> k1 < k2 \<longrightarrow> contact_force k1 y < contact_force k2 y)
   \<and> (- 1 < k \<and> 0 < 0 - y1 \<and> 0 - y1 < 0 - y2
        \<longrightarrow> contact_force k y1 < contact_force k y2)"
proof (intro conjI impI)
  show "contact_force k y = k * max 0 (0 - y) + 1 * (0 - y)"
    by (rule contact_force_eq)
next
  assume "0 - y \<le> 0"
  then show "contact_force k y = 1 * (0 - y)" "contact_force k y \<le> 0"
    by (simp_all add: contact_force_above_ground)
next
  assume "0 < 0 - y \<and> k1 < k2"
  then show "contact_force k1 y < contact_force k2 y"
    by (simp add: contact_force_penetrating)
next
  assume a: "- 1 < k \<and> 0 < 0 - y1 \<and> 0 - y1 < 0 - y2"
  then have "(k + 1) * (0 - y1) < (k + 1) * (0 - y2)"
    by (intro mult_strict_left_mono) simp_all
  with a show "contact_force k y1 < contact_force k y2"
    by (simp add: contact_force_penetrating)
qed

text \<open>
  At the stiffness of the bouncing ball, 3180: one metre below the ground the force is
  3181, two metres above it the force is - 2, and the force grows with the stiffness
  and with the depth.
\<close>

theorem contact_force_law_witness:
  "contact_force 3180 (- 1) = 3181 \<and> contact_force 3180 2 = - 2
   \<and> contact_force 3180 (- 1) < contact_force 3181 (- 1)
   \<and> contact_force 3180 (- 1) < contact_force 3180 (- 2)"
  using contact_force_law [of 3180 "- 1" 3180 3181 "- 1" "- 2"] contact_force_law [of 3180 2]
  by (simp add: contact_force_eq)

text \<open>
  The claim as stated, for every stiffness, fails at the stiffness - 2: the depth grows
  from 1 to 2 and the force falls from - 1 to - 2.
\<close>

theorem contact_force_depth_counterexample:
  "(0 :: double) < 0 - (- 1) \<and> (0 :: double) - (- 1) < 0 - (- 2)
   \<and> contact_force (- 2) (- 1) = - 1 \<and> contact_force (- 2) (- 2) = - 2
   \<and> \<not> contact_force (- 2) (- 1) < contact_force (- 2) (- 2)"
  by (simp add: contact_force_eq)

section \<open>Marker names are distinct\<close>

lemma string_value_to_string: "string_value (to_string n) = n"
proof (induction n rule: to_string.induct)
  case (1 n)
  show ?case
  proof (cases "n < 10")
    case True
    then show ?thesis
      by (subst to_string.simps) (simp add: string_value_def digit_char_def)
  next
    case False
    with 1 have "string_value (to_string (n div 10)) = n div 10" by simp
    with False show ?thesis
      by (subst to_string.simps) (simp add: string_value_def digit_char_def)
  qed
qed

lemma marker_name_inj: "marker_name i = marker_name j \<longleftrightarrow> i = j"
  by (metis marker_name_def same_append_eq string_value_to_string)

section \<open>What applyParametersToModel changes\<close>

lemma vec_set_twice [simp]: "vec_set (vec_set v i a) i b = vec_set v i b"
  by (cases v) simp

lemma vec_get_set [simp]:
  "vec_get (vec_set v 1 a) 1 = a" "vec_get (vec_set v (Suc 0) a) (Suc 0) = a"
  by (cases v; simp)+

lemma setMarkerY_twice [simp]: "setMarkerY h (setMarkerY h' mk) = setMarkerY h mk"
  by (simp add: setMarkerY_def)

lemma marker_eq_refl [simp]: "marker_eq a a"
  by (simp add: marker_eq_def)

lemma marker_eq_sym: "marker_eq a b \<Longrightarrow> marker_eq b a"
  by (simp add: marker_eq_def)

lemma marker_eq_trans: "marker_eq a b \<Longrightarrow> marker_eq b c \<Longrightarrow> marker_eq a c"
  by (simp add: marker_eq_def)

lemma marker_eq_set [simp]: "marker_eq (setMarkerY h a) a"
  by (simp add: marker_eq_def)

lemma force_eq_refl [simp]: "force_eq a a"
  by (simp add: force_eq_def)

lemma force_eq_sym: "force_eq a b \<Longrightarrow> force_eq b a"
  by (simp add: force_eq_def)

lemma force_eq_trans: "force_eq a b \<Longrightarrow> force_eq b c \<Longrightarrow> force_eq a c"
  by (simp add: force_eq_def)

lemma force_eq_set [simp]: "force_eq (a\<lparr>get_stiffness := k\<rparr>) a"
  by (simp add: force_eq_def)

lemma markers_rel_refl [simp]: "markers_rel ms ms"
  by (simp add: markers_rel_def option.rel_refl)

lemma markers_rel_sym: "markers_rel a b \<Longrightarrow> markers_rel b a"
  unfolding markers_rel_def
proof
  fix k
  assume ab: "\<forall>k. rel_option marker_eq (a k) (b k)"
  then have "rel_option marker_eq (a k) (b k)" by auto
  then show "rel_option marker_eq (b k) (a k)"
    by (cases "a k"; cases "b k") (auto intro: marker_eq_sym)
qed

lemma markers_rel_trans: "markers_rel a b \<Longrightarrow> markers_rel b c \<Longrightarrow> markers_rel a c"
  unfolding markers_rel_def
proof
  fix k
  assume ab: "\<forall>k. rel_option marker_eq (a k) (b k)" and bc: "\<forall>k. rel_option marker_eq (b k) (c k)"
  from ab bc have "rel_option marker_eq (a k) (b k)" "rel_option marker_eq (b k) (c k)" by auto
  then show "rel_option marker_eq (a k) (c k)"
    by (cases "a k"; cases "b k"; cases "c k") (auto intro: marker_eq_trans)
qed

lemma applyMarkerHeight_eq:
  "applyMarkerHeight name normHeight model =
     (case markers model name of
        None \<Rightarrow> Inl (ComponentNotFound name)
      | Some marker \<Rightarrow>
          Inr (model\<lparr>markers := (markers model)(name \<mapsto> setMarkerY (physicalHeight normHeight) marker)\<rparr>))"
  by (cases "markers model name")
    (simp_all add: applyMarkerHeight_def setMarkerY_def physicalHeight_def Let_def)

lemma markerLoop_frame:
  "forces (snd (markerLoop x is model)) = forces model
   \<and> gravity (snd (markerLoop x is model)) = gravity model
   \<and> system (snd (markerLoop x is model)) = system model"
  by (induction "is" arbitrary: model)
    (auto simp: applyMarkerHeight_eq split: option.splits)

lemma markerLoop_other:
  "k \<notin> marker_name ` set is \<Longrightarrow> markers (snd (markerLoop x is model)) k = markers model k"
  by (induction "is" arbitrary: model)
    (auto simp: applyMarkerHeight_eq split: option.splits)

lemma markerLoop_rel: "markers_rel (markers (snd (markerLoop x is model))) (markers model)"
proof (induction "is" arbitrary: model)
  case Nil
  show ?case by simp
next
  case (Cons i "is")
  show ?case
  proof (cases "i < length x")
    case False
    then show ?thesis by simp
  next
    case True
    show ?thesis
    proof (cases "markers model (marker_name i)")
      case None
      with True show ?thesis by (simp add: applyMarkerHeight_eq)
    next
      case (Some mk)
      let ?m = "model\<lparr>markers := (markers model)(marker_name i \<mapsto> setMarkerY (physicalHeight (x ! i)) mk)\<rparr>"
      have "markers_rel (markers ?m) (markers model)"
        using Some by (simp add: markers_rel_def option.rel_refl)
      moreover have "markers_rel (markers (snd (markerLoop x is ?m))) (markers ?m)"
        by (rule Cons.IH)
      ultimately show ?thesis
        using True Some by (simp add: applyMarkerHeight_eq) (blast intro: markers_rel_trans)
    qed
  qed
qed

lemma markerLoop_success:
  "(\<forall>i \<in> set is. i < length x \<and> markers model (marker_name i) \<noteq> None)
   \<Longrightarrow> fst (markerLoop x is model) = None"
proof (induction "is" arbitrary: model)
  case Nil
  show ?case by simp
next
  case (Cons i "is")
  then obtain mk where mk: "markers model (marker_name i) = Some mk" and i: "i < length x"
    by auto
  let ?m = "model\<lparr>markers := (markers model)(marker_name i \<mapsto> setMarkerY (physicalHeight (x ! i)) mk)\<rparr>"
  have "\<forall>j \<in> set is. j < length x \<and> markers ?m (marker_name j) \<noteq> None"
    using Cons.prems by auto
  then have "fst (markerLoop x is ?m) = None"
    by (rule Cons.IH)
  with mk i show ?case
    by (simp add: applyMarkerHeight_eq)
qed

lemma markerLoop_sets:
  "distinct is \<Longrightarrow> fst (markerLoop x is model) = None \<Longrightarrow> i \<in> set is
   \<Longrightarrow> markers (snd (markerLoop x is model)) (marker_name i)
       = map_option (setMarkerY (physicalHeight (x ! i))) (markers model (marker_name i))"
proof (induction "is" arbitrary: model)
  case Nil
  then show ?case by simp
next
  case (Cons j "is")
  from Cons.prems(2) have j: "j < length x"
    by (auto split: if_splits)
  from Cons.prems(2) j obtain mk where mk: "markers model (marker_name j) = Some mk"
    by (cases "markers model (marker_name j)") (auto simp: applyMarkerHeight_eq)
  let ?m = "model\<lparr>markers := (markers model)(marker_name j \<mapsto> setMarkerY (physicalHeight (x ! j)) mk)\<rparr>"
  have step: "markerLoop x (j # is) model = markerLoop x is ?m"
    using j mk by (simp add: applyMarkerHeight_eq)
  show ?case
  proof (cases "i = j")
    case True
    with Cons.prems(1) have "marker_name i \<notin> marker_name ` set is"
      by (auto simp: marker_name_inj)
    then have "markers (snd (markerLoop x is ?m)) (marker_name i) = markers ?m (marker_name i)"
      by (rule markerLoop_other)
    with True mk step show ?thesis by simp
  next
    case False
    with Cons.prems have "i \<in> set is" "distinct is" "fst (markerLoop x is ?m) = None"
      using step by auto
    then have "markers (snd (markerLoop x is ?m)) (marker_name i)
       = map_option (setMarkerY (physicalHeight (x ! i))) (markers ?m (marker_name i))"
      using Cons.IH by blast
    with False step show ?thesis by (simp add: marker_name_inj)
  qed
qed

lemma markers_rel_upd:
  "markers_rel ms ms0 \<Longrightarrow> marker_eq a b \<Longrightarrow> markers_rel (ms(k \<mapsto> a)) (ms0(k \<mapsto> b))"
  by (simp add: markers_rel_def)

lemma markerLoop_related:
  fixes model model0 :: "'sys Model"
  shows "markers_rel (markers model) (markers model0)
   \<Longrightarrow> fst (markerLoop x is model) = fst (markerLoop x is model0)
     \<and> (fst (markerLoop x is model) = None
          \<longrightarrow> (\<forall>i \<in> set is. markers (snd (markerLoop x is model)) (marker_name i)
                              = markers (snd (markerLoop x is model0)) (marker_name i)))"
proof (induction "is" arbitrary: model model0)
  case Nil
  show ?case by simp
next
  case (Cons j "is")
  show ?case
  proof (cases "j < length x")
    case False
    then show ?thesis by simp
  next
    case j: True
    from Cons.prems have rel: "rel_option marker_eq (markers model (marker_name j)) (markers model0 (marker_name j))"
      by (simp add: markers_rel_def)
    show ?thesis
    proof (cases "markers model (marker_name j)")
      case None
      with rel have "markers model0 (marker_name j) = None"
        by (cases "markers model0 (marker_name j)") auto
      with None j show ?thesis by (simp add: applyMarkerHeight_eq)
    next
      case (Some a)
      with rel obtain b where b: "markers model0 (marker_name j) = Some b" and ab: "marker_eq a b"
        by (cases "markers model0 (marker_name j)") auto
      let ?h = "physicalHeight (x ! j)"
      let ?m = "model\<lparr>markers := (markers model)(marker_name j \<mapsto> setMarkerY ?h a)\<rparr>"
      let ?mm = "model0\<lparr>markers := (markers model0)(marker_name j \<mapsto> setMarkerY ?h b)\<rparr>"
      have same: "setMarkerY ?h a = setMarkerY ?h b"
        using ab by (simp add: marker_eq_def)
      have step: "markerLoop x (j # is) model = markerLoop x is ?m"
        "markerLoop x (j # is) model0 = markerLoop x is ?mm"
        using j Some b by (simp_all add: applyMarkerHeight_eq)
      have "markers_rel (markers ?m) (markers ?mm)"
        using Cons.prems same by (simp add: markers_rel_upd)
      note both = Cons.IH [OF this]
      have IH: "fst (markerLoop x is ?m) = fst (markerLoop x is ?mm)"
        "fst (markerLoop x is ?m) = None \<Longrightarrow> i \<in> set is \<Longrightarrow>
           markers (snd (markerLoop x is ?m)) (marker_name i)
             = markers (snd (markerLoop x is ?mm)) (marker_name i)" for i
        using both by blast+
      have "markers (snd (markerLoop x is ?m)) (marker_name j)
              = markers (snd (markerLoop x is ?mm)) (marker_name j)"
        if ok: "fst (markerLoop x is ?m) = None"
      proof (cases "marker_name j \<in> marker_name ` set is")
        case True
        then obtain i where "i \<in> set is" "marker_name j = marker_name i" by auto
        with IH(2) [OF ok] show ?thesis by simp
      next
        case False
        then have "markers (snd (markerLoop x is ?m)) (marker_name j) = markers ?m (marker_name j)"
          "markers (snd (markerLoop x is ?mm)) (marker_name j) = markers ?mm (marker_name j)"
          by (simp_all add: markerLoop_other)
        with same show ?thesis by simp
      qed
      with IH show ?thesis
        unfolding step by auto
    qed
  qed
qed

lemma stiffnessLoop_Cons:
  "stiffnessLoop factor x n i (c # cs) =
     (if i + n < length x
      then (fst (stiffnessLoop factor x n (Suc i) cs),
            c\<lparr>get_stiffness := factor * (x ! (i + n))\<rparr> # snd (stiffnessLoop factor x n (Suc i) cs))
      else (Some IndexOutOfRange, c # cs))"
  by (simp split: prod.splits)

lemma stiffnessLoop_length:
  "length (snd (stiffnessLoop factor x n i cs)) = length cs"
  by (induction cs arbitrary: i) (simp_all add: stiffnessLoop_Cons del: stiffnessLoop.simps(2))

lemma stiffnessLoop_rel:
  "list_all2 force_eq (snd (stiffnessLoop factor x n i cs)) cs"
  by (induction cs arbitrary: i)
    (simp_all add: stiffnessLoop_Cons list.rel_refl del: stiffnessLoop.simps(2))

lemma stiffnessLoop_success:
  "i + length cs + n \<le> length x \<Longrightarrow> fst (stiffnessLoop factor x n i cs) = None"
  by (induction cs arbitrary: i) (simp_all add: stiffnessLoop_Cons del: stiffnessLoop.simps(2))

lemma stiffnessLoop_sets:
  "fst (stiffnessLoop factor x n i cs) = None \<Longrightarrow> j < length cs
   \<Longrightarrow> snd (stiffnessLoop factor x n i cs) ! j
       = (cs ! j)\<lparr>get_stiffness := factor * (x ! (i + j + n))\<rparr>"
proof (induction cs arbitrary: i j)
  case Nil
  then show ?case by simp
next
  case (Cons c cs)
  from Cons.prems(1) have ok: "i + n < length x" "fst (stiffnessLoop factor x n (Suc i) cs) = None"
    by (auto simp: stiffnessLoop_Cons simp del: stiffnessLoop.simps(2) split: if_splits)
  show ?case
  proof (cases j)
    case 0
    with ok show ?thesis by (simp add: stiffnessLoop_Cons del: stiffnessLoop.simps(2))
  next
    case (Suc j')
    with Cons.prems have "j' < length cs" by simp
    with ok have "snd (stiffnessLoop factor x n (Suc i) cs) ! j'
       = (cs ! j')\<lparr>get_stiffness := factor * (x ! (Suc i + j' + n))\<rparr>"
      using Cons.IH by blast
    with ok Suc show ?thesis by (simp add: stiffnessLoop_Cons del: stiffnessLoop.simps(2))
  qed
qed

lemma stiffnessLoop_related:
  "list_all2 force_eq cs cs0
   \<Longrightarrow> fst (stiffnessLoop factor x n i cs) = fst (stiffnessLoop factor x n i cs0)
     \<and> (fst (stiffnessLoop factor x n i cs) = None
          \<longrightarrow> snd (stiffnessLoop factor x n i cs) = snd (stiffnessLoop factor x n i cs0))"
proof (induction cs cs0 arbitrary: i rule: list_all2_induct)
  case Nil
  show ?case by simp
next
  case (Cons c cs c0 cs0)
  from Cons.hyps(1) have "c\<lparr>get_stiffness := k\<rparr> = c0\<lparr>get_stiffness := k\<rparr>" for k
    by (simp add: force_eq_def)
  moreover from Cons.hyps have "length cs = length cs0"
    by (simp add: list_all2_lengthD)
  ultimately show ?case
    using Cons.IH [of "Suc i"]
    by (simp add: stiffnessLoop_Cons del: stiffnessLoop.simps(2))
qed

lemma similar_refl [simp]: "similar n model model"
  by (simp add: similar_def list.rel_refl)

lemma list_all2_force_eq_sym: "list_all2 force_eq cs cs0 \<Longrightarrow> list_all2 force_eq cs0 cs"
  by (induction rule: list_all2_induct) (auto intro: force_eq_sym)

lemma list_all2_force_eq_trans:
  "list_all2 force_eq a b \<Longrightarrow> list_all2 force_eq b c \<Longrightarrow> list_all2 force_eq a c"
  using list_all2_trans [of force_eq force_eq force_eq a b c] force_eq_trans by blast

lemma similar_sym: "similar n model model0 \<Longrightarrow> similar n model0 model"
  by (simp add: similar_def markers_rel_sym list_all2_force_eq_sym)

lemma similar_trans: "similar n a b \<Longrightarrow> similar n b c \<Longrightarrow> similar n a c"
  unfolding similar_def
  by (auto intro: markers_rel_trans list_all2_force_eq_trans)

lemma similar_initSystem: "similar n (initSystem lib model) model"
  by (simp add: similar_def initSystem_def list.rel_refl)

lemma applyParametersToModel_eq:
  "applyParametersToModel this x model =
     (if fst (markerLoop x [0..<m_numContacts this] model) \<noteq> None
      then markerLoop x [0..<m_numContacts this] model
      else (fst (stiffnessLoop (forceScalingFactor this) x (m_numContacts this) 0 (forces model)),
            (snd (markerLoop x [0..<m_numContacts this] model))
              \<lparr>forces := snd (stiffnessLoop (forceScalingFactor this) x (m_numContacts this) 0
                                (forces model))\<rparr>))"
  using markerLoop_frame [of x "[0..<m_numContacts this]" model]
  by (auto simp: applyParametersToModel_def split: prod.splits option.splits)

lemma applyParametersToModel_system:
  "system (snd (applyParametersToModel this x model)) = system model"
  by (simp add: applyParametersToModel_eq markerLoop_frame)

lemma markerLoop_other_upt:
  "k \<notin> marker_name ` {..<n} \<Longrightarrow> markers (snd (markerLoop x [0..<n] model)) k = markers model k"
  by (rule markerLoop_other) (simp add: lessThan_atLeast0)

lemma applyParametersToModel_similar:
  "similar (m_numContacts this) (snd (applyParametersToModel this x model)) model"
  by (simp add: applyParametersToModel_eq similar_def markerLoop_frame markerLoop_rel
      markerLoop_other_upt stiffnessLoop_rel list.rel_refl)

lemma applyParametersToModel_related:
  fixes model model0 :: "'sys Model"
  assumes "similar (m_numContacts this) model model0"
  shows "fst (applyParametersToModel this x model) = fst (applyParametersToModel this x model0)"
    and "fst (applyParametersToModel this x model) = None
         \<Longrightarrow> markers (snd (applyParametersToModel this x model))
               = markers (snd (applyParametersToModel this x model0))
             \<and> forces (snd (applyParametersToModel this x model))
               = forces (snd (applyParametersToModel this x model0))
             \<and> gravity (snd (applyParametersToModel this x model))
               = gravity (snd (applyParametersToModel this x model0))"
proof -
  let ?n = "m_numContacts this"
  from assms have rel: "markers_rel (markers model) (markers model0)"
    and frc: "list_all2 force_eq (forces model) (forces model0)"
    and grav: "gravity model = gravity model0"
    and other: "\<And>k. k \<notin> marker_name ` {..<?n} \<Longrightarrow> markers model k = markers model0 k"
    by (simp_all add: similar_def)
  note ml = markerLoop_related [OF rel, of x "[0..<?n]"]
  note sl = stiffnessLoop_related [OF frc, of "forceScalingFactor this" x ?n 0]
  show fst_eq: "fst (applyParametersToModel this x model) = fst (applyParametersToModel this x model0)"
    using ml sl by (simp add: applyParametersToModel_eq)
  assume ok: "fst (applyParametersToModel this x model) = None"
  then have ok1: "fst (markerLoop x [0..<?n] model) = None"
    and ok2: "fst (stiffnessLoop (forceScalingFactor this) x ?n 0 (forces model)) = None"
    by (auto simp: applyParametersToModel_eq split: if_splits)
  have "markers (snd (markerLoop x [0..<?n] model)) k = markers (snd (markerLoop x [0..<?n] model0)) k"
    for k
  proof (cases "k \<in> marker_name ` {..<?n}")
    case True
    then obtain i where "i \<in> set [0..<?n]" "k = marker_name i" by auto
    with ml ok1 show ?thesis by blast
  next
    case False
    then have "k \<notin> marker_name ` set [0..<?n]" by (simp add: lessThan_atLeast0)
    then show ?thesis
      using other [OF False] by (simp add: markerLoop_other)
  qed
  then have "markers (snd (markerLoop x [0..<?n] model)) = markers (snd (markerLoop x [0..<?n] model0))"
    by (rule ext)
  with ml sl ok1 ok2 grav
  show "markers (snd (applyParametersToModel this x model))
               = markers (snd (applyParametersToModel this x model0))
             \<and> forces (snd (applyParametersToModel this x model))
               = forces (snd (applyParametersToModel this x model0))
             \<and> gravity (snd (applyParametersToModel this x model))
               = gravity (snd (applyParametersToModel this x model0))"
    by (simp add: applyParametersToModel_eq markerLoop_frame)
qed

lemma initSystem_cong:
  fixes model model' :: "'sys Model"
  assumes "markers model = markers model'" "forces model = forces model'"
    "gravity model = gravity model'"
  shows "initSystem lib model = initSystem lib model'"
  using assms by (cases model; cases model') (simp add: initSystem_def)

lemma objectiveOf_eq:
  "objectiveOf lib this model x =
     (case fst (applyParametersToModel this x model) of
        Some e \<Rightarrow> Inl e
      | None \<Rightarrow> normalizedError lib this (initSystem lib (snd (applyParametersToModel this x model))))"
  by (simp add: objectiveOf_def split: prod.splits option.splits)

lemma objectiveOf_similar:
  fixes model model0 :: "'sys Model"
  assumes "similar (m_numContacts this) model model0"
  shows "objectiveOf lib this model x = objectiveOf lib this model0 x"
proof (cases "fst (applyParametersToModel this x model)")
  case (Some e)
  moreover from Some applyParametersToModel_related(1) [OF assms, of x]
  have "fst (applyParametersToModel this x model0) = Some e"
    by simp
  ultimately show ?thesis
    by (simp add: objectiveOf_eq)
next
  case None
  with applyParametersToModel_related [OF assms, of x]
  have "fst (applyParametersToModel this x model0) = None"
    and same: "markers (snd (applyParametersToModel this x model))
                 = markers (snd (applyParametersToModel this x model0))"
      "forces (snd (applyParametersToModel this x model))
         = forces (snd (applyParametersToModel this x model0))"
      "gravity (snd (applyParametersToModel this x model))
         = gravity (snd (applyParametersToModel this x model0))"
    by simp_all
  moreover have "initSystem lib (snd (applyParametersToModel this x model))
          = initSystem lib (snd (applyParametersToModel this x model0))"
    using same by (rule initSystem_cong)
  ultimately have "fst (applyParametersToModel this x model0) = None"
    and "initSystem lib (snd (applyParametersToModel this x model))
          = initSystem lib (snd (applyParametersToModel this x model0))"
    by simp_all
  with None show ?thesis
    by (simp add: objectiveOf_eq)
qed

lemma modelAfter_similar: "similar (m_numContacts this) (modelAfter lib this x model) model"
proof -
  have "similar (m_numContacts this) (snd (applyParametersToModel this x model)) model"
    by (rule applyParametersToModel_similar)
  moreover have "similar (m_numContacts this)
      (initSystem lib (snd (applyParametersToModel this x model)))
      (snd (applyParametersToModel this x model))"
    by (rule similar_initSystem)
  ultimately show ?thesis
    by (auto simp: modelAfter_def split: prod.splits option.splits intro: similar_trans)
qed

lemma objectiveOf_sameProblem:
  assumes "sameProblem this this'"
  shows "objectiveOf lib this' model x = objectiveOf lib this model x"
proof -
  from assms have "applyParametersToModel this' x model = applyParametersToModel this x model"
    by (simp add: sameProblem_def applyParametersToModel_eq)
  moreover from assms have "normalizedError lib this' m = normalizedError lib this m" for m
    by (simp add: sameProblem_def normalizedError_def)
  ultimately show ?thesis
    by (simp add: objectiveOf_eq split: option.splits)
qed

lemma calc_objective_fst:
  "fst (calc_objective lib this t x)
     = objectiveOf lib this (the (acquireWorkingModel lib this t t)) x"
proof -
  obtain e model1 where
    "applyParametersToModel this x (the (acquireWorkingModel lib this t t)) = (e, model1)"
    by (cases "applyParametersToModel this x (the (acquireWorkingModel lib this t t))")
  then show ?thesis
    by (cases e) (simp_all add: calc_objective_def objectiveOf_def normalizedError_def Let_def)
qed

lemma calc_objective_snd:
  "snd (calc_objective lib this t x)
     = this\<lparr>m_workingModels := (acquireWorkingModel lib this t)
               (t \<mapsto> modelAfter lib this x (the (acquireWorkingModel lib this t t)))\<rparr>"
proof -
  obtain e model1 where
    "applyParametersToModel this x (the (acquireWorkingModel lib this t t)) = (e, model1)"
    by (cases "applyParametersToModel this x (the (acquireWorkingModel lib this t t))")
  then show ?thesis
    by (cases e) (simp_all add: calc_objective_def modelAfter_def Let_def)
qed

lemma printContactComparison_snd:
  "snd (printContactComparison lib this x filename)
     = this\<lparr>m_model := modelAfter lib this x (m_model this)\<rparr>"
proof -
  obtain e model1 where "applyParametersToModel this x (m_model this) = (e, model1)"
    by (cases "applyParametersToModel this x (m_model this)")
  then show ?thesis
    by (cases e) (simp_all add: printContactComparison_def modelAfter_def Let_def)
qed

lemma applyParametersToModel_succeeds:
  assumes "validModel (m_numContacts this) model" and "length x = 2 * m_numContacts this"
  shows "fst (applyParametersToModel this x model) = None"
proof -
  let ?n = "m_numContacts this"
  from assms have "\<forall>i \<in> set [0..<?n]. i < length x \<and> markers model (marker_name i) \<noteq> None"
    by (simp add: validModel_def)
  then have "fst (markerLoop x [0..<?n] model) = None"
    by (rule markerLoop_success)
  moreover from assms have "0 + length (forces model) + ?n \<le> length x"
    by (simp add: validModel_def)
  then have "fst (stiffnessLoop (forceScalingFactor this) x ?n 0 (forces model)) = None"
    by (rule stiffnessLoop_success)
  ultimately show ?thesis
    by (simp add: applyParametersToModel_eq)
qed

lemma applyParametersToModel_marker:
  assumes "fst (applyParametersToModel this x model) = None" and "i < m_numContacts this"
  shows "markers (snd (applyParametersToModel this x model)) (marker_name i)
           = map_option (setMarkerY (physicalHeight (x ! i))) (markers model (marker_name i))"
proof -
  let ?n = "m_numContacts this"
  from assms(1) have ok: "fst (markerLoop x [0..<?n] model) = None"
    by (auto simp: applyParametersToModel_eq split: if_splits)
  have "markers (snd (markerLoop x [0..<?n] model)) (marker_name i)
          = map_option (setMarkerY (physicalHeight (x ! i))) (markers model (marker_name i))"
    using assms(2) by (intro markerLoop_sets ok) simp_all
  with ok show ?thesis
    by (simp add: applyParametersToModel_eq)
qed

lemma applyParametersToModel_force:
  assumes "fst (applyParametersToModel this x model) = None" and "j < length (forces model)"
  shows "forces (snd (applyParametersToModel this x model)) ! j
           = (forces model ! j)\<lparr>get_stiffness := forceScalingFactor this * x ! (m_numContacts this + j)\<rparr>"
proof -
  let ?n = "m_numContacts this"
  from assms(1) have ok: "fst (markerLoop x [0..<?n] model) = None"
    and ok2: "fst (stiffnessLoop (forceScalingFactor this) x ?n 0 (forces model)) = None"
    by (auto simp: applyParametersToModel_eq split: if_splits)
  from stiffnessLoop_sets [OF ok2 assms(2)] ok show ?thesis
    by (simp add: applyParametersToModel_eq add.commute)
qed

lemma physicalHeight_eq: "physicalHeight normHeight = - 0.06 + normHeight * (0.05 - (- 0.06))"
  by (simp add: physicalHeight_def Let_def)

lemma markerHeight_after:
  assumes "validModel (m_numContacts this) model" and "length x = 2 * m_numContacts this"
    and "i < m_numContacts this"
  shows "vec_get (location (the (markers (snd (applyParametersToModel this x model))
           (marker_name i)))) 1 = physicalHeight (x ! i)"
proof -
  from assms(1,3) obtain mk where "markers model (marker_name i) = Some mk"
    by (auto simp: validModel_def)
  moreover have "fst (applyParametersToModel this x model) = None"
    using assms(1,2) by (rule applyParametersToModel_succeeds)
  ultimately show ?thesis
    using assms(3) by (simp add: applyParametersToModel_marker setMarkerY_def)
qed

section \<open>The worked example, evaluated\<close>

lemma marker_names:
  "marker_name 0 = ''marker0''" "marker_name 1 = ''marker1''" "marker_name 2 = ''marker2''"
  "marker_name 3 = ''marker3''" "marker_name 4 = ''marker4''" "marker_name 5 = ''marker5''"
  "marker_name (Suc 0) = ''marker1''"
  by code_simp+

lemma upt6: "[0..<6] = [0, 1, 2, 3, 4, 5]"
  by code_simp

lemma vec_norm_vertical: "vec_norm (Vec3 0 (- g) 0) = \<bar>g\<bar>"
  by simp

lemma exampleModel_markers:
  "markers exampleModel = [''marker0'' \<mapsto> \<lparr>parent_frame = ''calcn_r'', location = Vec3 (- 0.03) (- 0.027) 0\<rparr>,
    ''marker1'' \<mapsto> \<lparr>parent_frame = ''calcn_r'', location = Vec3 0.032 (- 0.027) 0\<rparr>,
    ''marker2'' \<mapsto> \<lparr>parent_frame = ''calcn_r'', location = Vec3 0.094 (- 0.027) 0\<rparr>,
    ''marker3'' \<mapsto> \<lparr>parent_frame = ''calcn_r'', location = Vec3 0.156 (- 0.027) 0\<rparr>,
    ''marker4'' \<mapsto> \<lparr>parent_frame = ''calcn_r'', location = Vec3 0.218 (- 0.027) 0\<rparr>,
    ''marker5'' \<mapsto> \<lparr>parent_frame = ''calcn_r'', location = Vec3 0.28 (- 0.027) 0\<rparr>]"
  by (simp add: exampleModel_def addContactPoints_def numContacts_def upt6 addContactPoint_def
      marker_names addMarker_def addContact_def exampleBase_def Let_def)

lemma exampleModel_forces:
  "forces exampleModel = map (\<lambda>name. \<lparr>force_name = name @ ''_contact'', get_stiffness = 50000000,
       friction_coefficient = 0.95, tangent_velocity_scaling_factor = 0.3, station = name\<rparr>)
     [''marker0'', ''marker1'', ''marker2'', ''marker3'', ''marker4'', ''marker5'']"
  by (simp add: exampleModel_def addContactPoints_def numContacts_def upt6 addContactPoint_def
      marker_names addMarker_def addContact_def exampleBase_def Let_def)

lemma exampleModel_gravity: "gravity exampleModel = Vec3 0 (- 9.80665) 0"
  by (simp add: exampleModel_def addContactPoints_def numContacts_def upt6 addContactPoint_def
      marker_names addMarker_def addContact_def exampleBase_def Let_def)

lemma exampleModel_valid: "validModel 6 exampleModel"
  unfolding validModel_def
proof (intro conjI allI impI)
  fix i :: nat
  assume "i < 6"
  then have "i = 0 \<or> i = 1 \<or> i = 2 \<or> i = 3 \<or> i = 4 \<or> i = 5" by arith
  then show "markers exampleModel (marker_name i) \<noteq> None"
    by (auto simp: exampleModel_markers marker_names)
next
  show "length (forces exampleModel) = 6"
    by (simp add: exampleModel_forces)
qed

lemma exampleProblem_numContacts: "m_numContacts exampleProblem = 6"
  by (simp add: exampleProblem_def new_ContactCalibration_def)

lemma exampleProblem_valid: "validModel (m_numContacts exampleProblem) exampleModel"
  by (simp add: exampleProblem_numContacts exampleModel_valid)

section \<open>The parameter mapping\<close>

text \<open>
  Claim C7. On a model that has the markers \<^verbatim>\<open>marker0\<close>, ... and one contact
  element per contact, and for a parameter vector of length \<open>2 \<cdot> numContacts\<close>,
  \<^verbatim>\<open>applyParametersToModel\<close> returns without failure; for every contact \<open>i\<close>
  it sets the height of marker \<open>i\<close> to \<open>lower + x[i] \<cdot> (upper - lower)\<close> with
  \<open>lower = - 0.06\<close> and \<open>upper = 0.05\<close>, leaving the rest of the marker as it
  was, and the stiffness of contact element \<open>i\<close> to the scale factor
  \<^verbatim>\<open>forceScalingFactor\<close> times \<open>x[numContacts + i]\<close>, leaving the rest of the
  element as it was; gravity and the system are untouched. The result is a function of
  the model and \<open>x\<close> (and of the two constant members). The constructor sets the
  scale factor to \<open>10\<^sup>8\<close>.
\<close>

theorem applyParametersToModel_sets_quantities:
  assumes "validModel (m_numContacts this) model" and "length x = 2 * m_numContacts this"
    and "i < m_numContacts this"
  shows "fst (applyParametersToModel this x model) = None
    \<and> markers (snd (applyParametersToModel this x model)) (marker_name i)
        = map_option (setMarkerY (- 0.06 + x ! i * (0.05 - (- 0.06))))
            (markers model (marker_name i))
    \<and> vec_get (location (the (markers (snd (applyParametersToModel this x model))
           (marker_name i)))) 1 = - 0.06 + x ! i * (0.05 - (- 0.06))
    \<and> forces (snd (applyParametersToModel this x model)) ! i
        = (forces model ! i)\<lparr>get_stiffness :=
             forceScalingFactor this * x ! (m_numContacts this + i)\<rparr>
    \<and> get_stiffness (forces (snd (applyParametersToModel this x model)) ! i)
        = forceScalingFactor this * x ! (m_numContacts this + i)
    \<and> gravity (snd (applyParametersToModel this x model)) = gravity model
    \<and> system (snd (applyParametersToModel this x model)) = system model
    \<and> forceScalingFactor (new_ContactCalibration lib model0 statesTraj n FySpline) = 100000000"
proof -
  have ok: "fst (applyParametersToModel this x model) = None"
    using assms(1,2) by (rule applyParametersToModel_succeeds)
  from assms(1,3) have j: "i < length (forces model)"
    by (simp add: validModel_def)
  have m: "markers (snd (applyParametersToModel this x model)) (marker_name i)
        = map_option (setMarkerY (physicalHeight (x ! i))) (markers model (marker_name i))"
    using ok assms(3) by (rule applyParametersToModel_marker)
  have h: "vec_get (location (the (markers (snd (applyParametersToModel this x model))
           (marker_name i)))) 1 = physicalHeight (x ! i)"
    using assms by (rule markerHeight_after)
  have f: "forces (snd (applyParametersToModel this x model)) ! i
        = (forces model ! i)\<lparr>get_stiffness :=
             forceScalingFactor this * x ! (m_numContacts this + i)\<rparr>"
    using ok j by (rule applyParametersToModel_force)
  then have k: "get_stiffness (forces (snd (applyParametersToModel this x model)) ! i)
        = forceScalingFactor this * x ! (m_numContacts this + i)"
    by simp
  have g: "gravity (snd (applyParametersToModel this x model)) = gravity model"
    using applyParametersToModel_similar [of this x model] by (simp add: similar_def)
  have s: "system (snd (applyParametersToModel this x model)) = system model"
    by (rule applyParametersToModel_system)
  have c: "forceScalingFactor (new_ContactCalibration lib model0 statesTraj n FySpline) = 100000000"
    by (simp add: new_ContactCalibration_def)
  show ?thesis
    unfolding physicalHeight_eq [symmetric]
    by (intro conjI ok m h f k g s c)
qed

text \<open>
  In the worked example, with every parameter at 0.5: marker 2 ends at the height
  - 0.005, and contact element 2 at the stiffness \<open>5 \<cdot> 10\<^sup>7\<close>.
\<close>

theorem applyParametersToModel_sets_quantities_witness:
  "fst (applyParametersToModel exampleProblem exampleX exampleModel) = None
   \<and> markers (snd (applyParametersToModel exampleProblem exampleX exampleModel)) ''marker2''
       = Some \<lparr>parent_frame = ''calcn_r'', location = Vec3 0.094 (- 0.005) 0\<rparr>
   \<and> get_stiffness (forces (snd (applyParametersToModel exampleProblem exampleX exampleModel)) ! 2)
       = 50000000"
proof -
  have "length exampleX = 2 * m_numContacts exampleProblem"
    by (simp add: exampleX_def exampleProblem_numContacts)
  moreover have "2 < m_numContacts exampleProblem"
    by (simp add: exampleProblem_numContacts)
  ultimately show ?thesis
    using applyParametersToModel_sets_quantities [OF exampleProblem_valid, of exampleX 2]
    by (simp add: exampleX_def exampleProblem_numContacts marker_names exampleModel_markers
        setMarkerY_def exampleProblem_def new_ContactCalibration_def)
qed

text \<open>
  Claim C9. Under the same conditions, parameter vectors with components exactly 0 or
  exactly 1 are applied without failure; a component \<open>x[i] = 0\<close> puts marker
  \<open>i\<close> exactly on the lower bound - 0.06 and a component \<open>x[i] = 1\<close> exactly on
  the upper bound 0.05.
\<close>

theorem applyParametersToModel_bounds:
  assumes "validModel (m_numContacts this) model" and "length x = 2 * m_numContacts this"
    and "i < m_numContacts this"
  shows "fst (applyParametersToModel this x model) = None
    \<and> (x ! i = 0 \<longrightarrow>
         vec_get (location (the (markers (snd (applyParametersToModel this x model))
           (marker_name i)))) 1 = - 0.06)
    \<and> (x ! i = 1 \<longrightarrow>
         vec_get (location (the (markers (snd (applyParametersToModel this x model))
           (marker_name i)))) 1 = 0.05)"
proof -
  have ok: "fst (applyParametersToModel this x model) = None"
    using assms(1,2) by (rule applyParametersToModel_succeeds)
  have h: "vec_get (location (the (markers (snd (applyParametersToModel this x model))
           (marker_name i)))) 1 = physicalHeight (x ! i)"
    using assms by (rule markerHeight_after)
  have "physicalHeight 0 = - 0.06" "physicalHeight 1 = 0.05"
    by (simp_all add: physicalHeight_eq)
  with ok show ?thesis
    unfolding h by simp
qed

text \<open>
  In the worked example, with the parameters alternating between 0 and 1: marker 0
  ends at - 0.06 and marker 1 at 0.05.
\<close>

theorem applyParametersToModel_bounds_witness:
  "fst (applyParametersToModel exampleProblem boundaryX exampleModel) = None
   \<and> vec_get (location (the (markers (snd (applyParametersToModel exampleProblem boundaryX
        exampleModel)) ''marker0''))) 1 = - 0.06
   \<and> vec_get (location (the (markers (snd (applyParametersToModel exampleProblem boundaryX
        exampleModel)) ''marker1''))) 1 = 0.05"
proof -
  have len: "length boundaryX = 2 * m_numContacts exampleProblem"
    by (simp add: boundaryX_def exampleProblem_numContacts)
  have "0 < m_numContacts exampleProblem" "1 < m_numContacts exampleProblem"
    by (simp_all add: exampleProblem_numContacts)
  then show ?thesis
    using applyParametersToModel_bounds [OF exampleProblem_valid len, of 0]
      applyParametersToModel_bounds [OF exampleProblem_valid len, of 1]
    by (simp add: boundaryX_def marker_names)
qed

section \<open>The working models across calls\<close>

lemma acquireWorkingModel_self:
  "acquireWorkingModel lib this t t =
     Some (case m_workingModels this t of None \<Rightarrow> initSystem lib (m_model this) | Some model \<Rightarrow> model)"
  by (cases "m_workingModels this t") (simp_all add: acquireWorkingModel_def)

lemma acquireWorkingModel_other:
  "t' \<noteq> t \<Longrightarrow> acquireWorkingModel lib this t t' = m_workingModels this t'"
  by (simp add: acquireWorkingModel_def)


lemma consistent_working:
  assumes "consistent model0 this"
  shows "similar (m_numContacts this) (the (acquireWorkingModel lib this t t)) model0"
proof (cases "m_workingModels this t")
  case None
  have "similar (m_numContacts this) (initSystem lib (m_model this)) (m_model this)"
    by (rule similar_initSystem)
  moreover from assms have "similar (m_numContacts this) (m_model this) model0"
    by (simp add: consistent_def)
  ultimately show ?thesis
    using None by (auto simp: acquireWorkingModel_self intro: similar_trans)
next
  case (Some model)
  with assms show ?thesis
    by (simp add: acquireWorkingModel_self consistent_def)
qed

lemma calc_objective_consistent:
  assumes "consistent model0 this"
  shows "fst (calc_objective lib this t x) = objectiveOf lib this model0 x"
  unfolding calc_objective_fst
  by (rule objectiveOf_similar) (rule consistent_working [OF assms])

lemma calc_objective_sameProblem: "sameProblem this (snd (calc_objective lib this t x))"
  by (simp add: calc_objective_snd sameProblem_def)

lemma printContactComparison_sameProblem:
  "sameProblem this (snd (printContactComparison lib this x filename))"
  by (simp add: printContactComparison_snd sameProblem_def)

lemma perform_sameProblem: "sameProblem this (perform lib op this)"
  by (cases op) (simp_all add: calc_objective_sameProblem printContactComparison_sameProblem)

lemma sameProblem_trans: "sameProblem a b \<Longrightarrow> sameProblem b c \<Longrightarrow> sameProblem a c"
  by (simp add: sameProblem_def)

lemma performAll_sameProblem: "sameProblem this (performAll lib ops this)"
  unfolding performAll_def
proof (induction ops arbitrary: this)
  case Nil
  show ?case by (simp add: sameProblem_def)
next
  case (Cons op ops)
  have "sameProblem this (perform lib op this)"
    by (rule perform_sameProblem)
  moreover have "sameProblem (perform lib op this) (fold (perform lib) ops (perform lib op this))"
    by (rule Cons.IH)
  ultimately show ?case
    by (auto intro: sameProblem_trans)
qed

lemma calc_objective_keeps_consistent:
  assumes "consistent model0 this"
  shows "consistent model0 (snd (calc_objective lib this t x))"
proof -
  let ?n = "m_numContacts this"
  let ?w = "the (acquireWorkingModel lib this t t)"
  have "similar ?n (modelAfter lib this x ?w) ?w"
    by (rule modelAfter_similar)
  moreover have "similar ?n ?w model0"
    by (rule consistent_working [OF assms])
  ultimately have new: "similar ?n (modelAfter lib this x ?w) model0"
    by (rule similar_trans)
  have "similar ?n model model0"
    if "((acquireWorkingModel lib this t)(t \<mapsto> modelAfter lib this x ?w)) t' = Some model"
    for t' model
  proof (cases "t' = t")
    case True
    with that new show ?thesis by simp
  next
    case False
    with that have "m_workingModels this t' = Some model"
      by (simp add: acquireWorkingModel_other)
    with assms show ?thesis by (simp add: consistent_def)
  qed
  with assms show ?thesis
    by (simp add: calc_objective_snd consistent_def)
qed

lemma printContactComparison_keeps_consistent:
  assumes "consistent model0 this"
  shows "consistent model0 (snd (printContactComparison lib this x filename))"
proof -
  let ?n = "m_numContacts this"
  have "similar ?n (modelAfter lib this x (m_model this)) (m_model this)"
    by (rule modelAfter_similar)
  moreover from assms have "similar ?n (m_model this) model0"
    by (simp add: consistent_def)
  ultimately have "similar ?n (modelAfter lib this x (m_model this)) model0"
    by (rule similar_trans)
  with assms show ?thesis
    by (simp add: printContactComparison_snd consistent_def)
qed

lemma perform_keeps_consistent:
  "consistent model0 this \<Longrightarrow> consistent model0 (perform lib op this)"
  by (cases op)
    (simp_all add: calc_objective_keeps_consistent printContactComparison_keeps_consistent)

lemma performAll_keeps_consistent:
  "consistent model0 this \<Longrightarrow> consistent model0 (performAll lib ops this)"
  unfolding performAll_def
  by (induction ops arbitrary: this) (simp_all add: perform_keeps_consistent)

lemma new_ContactCalibration_consistent:
  "consistent (initSystem lib model) (new_ContactCalibration lib model statesTraj n FySpline)"
  by (simp add: consistent_def new_ContactCalibration_def)

lemma calc_objective_after_history:
  assumes "consistent model0 this"
  shows "fst (calc_objective lib (performAll lib ops this) t x) = objectiveOf lib this model0 x"
proof -
  have "fst (calc_objective lib (performAll lib ops this) t x)
          = objectiveOf lib (performAll lib ops this) model0 x"
    by (rule calc_objective_consistent) (rule performAll_keeps_consistent [OF assms])
  also have "\<dots> = objectiveOf lib this model0 x"
    by (rule objectiveOf_sameProblem) (rule performAll_sameProblem)
  finally show ?thesis .
qed

lemma performAll_append:
  "performAll lib (ops @ ops') this = performAll lib ops' (performAll lib ops this)"
  by (simp add: performAll_def)

lemma performAll_Evaluate:
  "snd (calc_objective lib (performAll lib ops this) t x) = performAll lib (ops @ [Evaluate t x]) this"
  by (simp add: performAll_def)

lemma fold_plus_sum_list:
  fixes f :: "'a \<Rightarrow> real"
  shows "fold (\<lambda>y acc. acc + f y) ys a = a + sum_list (map f ys)"
  by (induction ys arbitrary: a) simp_all

lemma sumContactForceY_eq:
  "sumContactForceY lib model (forces model) (realizeVelocity lib model state)
     = simulatedFy lib model state"
  by (simp add: sumContactForceY_def simulatedFy_def fold_plus_sum_list)

lemma sumSquaredError_eq:
  "sumSquaredError lib FySpline model statesTraj
     = (\<Sum>state\<leftarrow>statesTraj.
          (simulatedFy lib model state - FySpline (getTime (realizeVelocity lib model state)))\<^sup>2)"
  by (simp add: sumSquaredError_def Let_def sumContactForceY_eq fold_plus_sum_list)

lemma validModel_initSystem: "validModel n (initSystem lib model) = validModel n model"
  by (simp add: validModel_def initSystem_def)






lemma modelAfter_sameProblem:
  assumes "sameProblem this this'"
  shows "modelAfter lib this' x model = modelAfter lib this x model"
proof -
  from assms have "applyParametersToModel this' x model = applyParametersToModel this x model"
    by (simp add: sameProblem_def applyParametersToModel_eq)
  then show ?thesis
    by (simp add: modelAfter_def)
qed





section \<open>Interleaved statements\<close>

lemma sameProblem_refl [simp]: "sameProblem this this"
  by (simp add: sameProblem_def)

lemma consistent_set:
  assumes "consistent model0 this" and "similar (m_numContacts this) model model0"
  shows "consistent model0 (this\<lparr>m_workingModels := (m_workingModels this)(t \<mapsto> model)\<rparr>)"
  using assms by (simp add: consistent_def)

lemma consistent_entry:
  "consistent model0 this \<Longrightarrow> m_workingModels this t = Some model
   \<Longrightarrow> similar (m_numContacts this) model model0"
  by (simp add: consistent_def)

lemma orderly_initially:
  assumes "m_workingModels this = Map.empty"
  shows "orderly lib this (initially this)"
  using assms by (simp add: orderly_def initially_def consistent_def)

lemma orderly_step:
  assumes "step lib s s'" and "orderly lib this s"
  shows "orderly lib this s'"
  using assms
proof (induction rule: step.induct)
  case (call s t x)
  then show ?case by (auto simp: orderly_def)
next
  case (check_absent s t x)
  then show ?case by (auto simp: orderly_def)
next
  case (check_present s t x)
  then show ?case by (auto simp: orderly_def)
next
  case (insert s t x)
  from insert.prems have "similar (m_numContacts (problem s)) (m_model (problem s)) (m_model this)"
    by (simp add: orderly_def)
  with insert.prems
  have "consistent (m_model this)
          ((problem s)\<lparr>m_workingModels := (m_workingModels (problem s))(t \<mapsto> m_model (problem s))\<rparr>)"
    by (intro consistent_set) (simp_all add: orderly_def)
  with insert show ?case
    by (auto simp: orderly_def setWorkingModel_def sameProblem_def)
next
  case (initialize s t x model)
  let ?n = "m_numContacts (problem s)"
  from initialize have "similar ?n model (m_model this)"
    by (auto simp: orderly_def intro: consistent_entry)
  then have "similar ?n (initSystem lib model) (m_model this)"
    using similar_initSystem [of ?n lib model] by (blast intro: similar_trans)
  with initialize.prems
  have "consistent (m_model this)
          ((problem s)\<lparr>m_workingModels := (m_workingModels (problem s))(t \<mapsto> initSystem lib model)\<rparr>)"
    by (intro consistent_set) (simp_all add: orderly_def)
  with initialize show ?case
    by (auto simp: orderly_def setWorkingModel_def sameProblem_def)
next
  case (work s t x model)
  let ?n = "m_numContacts (problem s)"
  from work have sim: "similar ?n model (m_model this)"
    by (auto simp: orderly_def intro: consistent_entry)
  then have "similar ?n (modelAfter lib (problem s) x model) (m_model this)"
    using modelAfter_similar [of "problem s" lib x model] by (blast intro: similar_trans)
  with work.prems
  have c: "consistent (m_model this)
          ((problem s)\<lparr>m_workingModels := (m_workingModels (problem s))
             (t \<mapsto> modelAfter lib (problem s) x model)\<rparr>)"
    by (intro consistent_set) (simp_all add: orderly_def)
  from work.prems have same: "sameProblem this (problem s)"
    by (simp add: orderly_def)
  have "objectiveOf lib (problem s) model x = objectiveOf lib (problem s) (m_model this) x"
    using sim by (rule objectiveOf_similar)
  also have "\<dots> = objectiveOf lib this (m_model this) x"
    using same by (rule objectiveOf_sameProblem)
  finally have r: "objectiveOf lib (problem s) model x = objectiveOf lib this (m_model this) x" .
  from work c r show ?case
    by (auto simp: orderly_def setWorkingModel_def sameProblem_def)
qed

lemma orderly_executes:
  assumes "executes lib s s'" and "orderly lib this s"
  shows "orderly lib this s'"
  using assms by (induction rule: executes.induct) (auto intro: orderly_step)

lemma consistent_fresh:
  "m_workingModels this = Map.empty \<Longrightarrow> consistent (m_model this) this"
  by (simp add: consistent_def)

lemma executes_result:
  assumes "executes lib (initially this) s" and "m_workingModels this = Map.empty"
    and "control s t = Returned x r"
  shows "r = fst (calc_objective lib this t' x)"
proof -
  have "orderly lib this s"
    using assms(1) orderly_initially [OF assms(2)] by (rule orderly_executes)
  with assms(3) have "r = objectiveOf lib this (m_model this) x"
    by (simp add: orderly_def)
  moreover have "fst (calc_objective lib this t' x) = objectiveOf lib this (m_model this) x"
    using consistent_fresh [OF assms(2)] by (rule calc_objective_consistent)
  ultimately show ?thesis by simp
qed



lemma modelAfter_workingModels [simp]:
  "modelAfter lib (this\<lparr>m_workingModels := w\<rparr>) x model = modelAfter lib this x model"
  by (rule modelAfter_sameProblem) (simp add: sameProblem_def)

lemma objectiveOf_workingModels [simp]:
  "objectiveOf lib (this\<lparr>m_workingModels := w\<rparr>) model x = objectiveOf lib this model x"
  by (rule objectiveOf_sameProblem) (simp add: sameProblem_def)

lemma executes_trans:
  "executes lib s' s'' \<Longrightarrow> executes lib s s' \<Longrightarrow> executes lib s s''"
  by (induction rule: executes.induct) (auto intro: executes.intros)

lemma calc_objective_executes:
  assumes "control s t = Idle \<or> (\<exists>x' r. control s t = Returned x' r)"
  shows "executes lib s
           \<lparr>problem = snd (calc_objective lib (problem s) t x),
            control = (control s)(t := Returned x (fst (calc_objective lib (problem s) t x))),
            created = (if m_workingModels (problem s) t = None
                       then (created s)(t := Suc (created s t)) else created s)\<rparr>"
proof -
  let ?cal = "problem s"
  let ?s1 = "s\<lparr>control := (control s)(t := Called x)\<rparr>"
  have e1: "executes lib s ?s1"
    using assms by (intro executes.continue [OF executes.start] step.call)
  show ?thesis
  proof (cases "m_workingModels ?cal t")
    case (Some model)
    let ?s2 = "?s1\<lparr>control := (control ?s1)(t := Working x)\<rparr>"
    have "step lib ?s1 ?s2"
      using Some by (intro step.check_present) simp_all
    with e1 have e2: "executes lib s ?s2"
      by (rule executes.continue)
    have "step lib ?s2 (setWorkingModel t (modelAfter lib (problem ?s2) x model)
                       (Returned x (objectiveOf lib (problem ?s2) model x)) ?s2)"
      using Some by (intro step.work) simp_all
    with e2 have "executes lib s (setWorkingModel t (modelAfter lib (problem ?s2) x model)
                       (Returned x (objectiveOf lib (problem ?s2) model x)) ?s2)"
      by (rule executes.continue)
    moreover have "setWorkingModel t (modelAfter lib (problem ?s2) x model)
                       (Returned x (objectiveOf lib (problem ?s2) model x)) ?s2
      = \<lparr>problem = snd (calc_objective lib ?cal t x),
         control = (control s)(t := Returned x (fst (calc_objective lib ?cal t x))),
         created = created s\<rparr>"
      using Some
      by (simp add: setWorkingModel_def calc_objective_fst calc_objective_snd
          acquireWorkingModel_def)
    ultimately show ?thesis using Some by simp
  next
    case None
    let ?s2 = "?s1\<lparr>control := (control ?s1)(t := Locking x)\<rparr>"
    let ?s3 = "(setWorkingModel t (m_model (problem ?s2)) (Initializing x) ?s2)
                 \<lparr>created := (created ?s2)(t := Suc (created ?s2 t))\<rparr>"
    let ?s4 = "setWorkingModel t (initSystem lib (m_model ?cal)) (Working x) ?s3"
    let ?s5 = "setWorkingModel t (modelAfter lib (problem ?s4) x (initSystem lib (m_model ?cal)))
                 (Returned x (objectiveOf lib (problem ?s4) (initSystem lib (m_model ?cal)) x)) ?s4"
    have "step lib ?s1 ?s2"
      using None by (intro step.check_absent) simp_all
    with e1 have e2: "executes lib s ?s2"
      by (rule executes.continue)
    have "step lib ?s2 ?s3"
      by (intro step.insert) simp
    with e2 have e3: "executes lib s ?s3"
      by (rule executes.continue)
    have "step lib ?s3 ?s4"
      by (intro step.initialize) (simp_all add: setWorkingModel_def)
    with e3 have e4: "executes lib s ?s4"
      by (rule executes.continue)
    have "step lib ?s4 ?s5"
      by (intro step.work) (simp_all add: setWorkingModel_def)
    with e4 have e5: "executes lib s ?s5"
      by (rule executes.continue)
    have "?s5 = \<lparr>problem = snd (calc_objective lib ?cal t x),
         control = (control s)(t := Returned x (fst (calc_objective lib ?cal t x))),
         created = (created s)(t := Suc (created s t))\<rparr>"
      using None
      by (simp add: setWorkingModel_def calc_objective_fst calc_objective_snd
          acquireWorkingModel_def)
    with e5 show ?thesis using None by simp
  qed
qed






lemma new_ContactCalibration_workingModels:
  "m_workingModels (new_ContactCalibration lib model statesTraj n FySpline) = Map.empty"
  by (simp add: new_ContactCalibration_def)

section \<open>The worked example, continued\<close>

lemma example_applied:
  assumes "m_numContacts this = 6" and "forceScalingFactor this = 100000000"
  shows "applyParametersToModel this exampleX (initSystem exampleLib exampleModel) =
    (None, \<lparr>markers = [''marker0'' \<mapsto> \<lparr>parent_frame = ''calcn_r'', location = Vec3 (- 0.03) (- 0.005) 0\<rparr>,
    ''marker1'' \<mapsto> \<lparr>parent_frame = ''calcn_r'', location = Vec3 0.032 (- 0.005) 0\<rparr>,
    ''marker2'' \<mapsto> \<lparr>parent_frame = ''calcn_r'', location = Vec3 0.094 (- 0.005) 0\<rparr>,
    ''marker3'' \<mapsto> \<lparr>parent_frame = ''calcn_r'', location = Vec3 0.156 (- 0.005) 0\<rparr>,
    ''marker4'' \<mapsto> \<lparr>parent_frame = ''calcn_r'', location = Vec3 0.218 (- 0.005) 0\<rparr>,
    ''marker5'' \<mapsto> \<lparr>parent_frame = ''calcn_r'', location = Vec3 0.28 (- 0.005) 0\<rparr>],
     forces = forces exampleModel,
     gravity = Vec3 0 (- 9.80665) 0,
     system = Some ()\<rparr>)"
  using assms
  by (simp add: applyParametersToModel_def upt6 applyMarkerHeight_eq physicalHeight_eq
      setMarkerY_def marker_names initSystem_def exampleModel_markers exampleModel_forces
      exampleModel_gravity exampleX_def exampleLib_def)

lemma example_parameterizedModel:
  assumes "m_numContacts this = 6" and "forceScalingFactor this = 100000000"
    and "m_model this = initSystem exampleLib exampleModel"
  shows "parameterizedModel exampleLib this exampleX =
    \<lparr>markers = [''marker0'' \<mapsto> \<lparr>parent_frame = ''calcn_r'', location = Vec3 (- 0.03) (- 0.005) 0\<rparr>,
    ''marker1'' \<mapsto> \<lparr>parent_frame = ''calcn_r'', location = Vec3 0.032 (- 0.005) 0\<rparr>,
    ''marker2'' \<mapsto> \<lparr>parent_frame = ''calcn_r'', location = Vec3 0.094 (- 0.005) 0\<rparr>,
    ''marker3'' \<mapsto> \<lparr>parent_frame = ''calcn_r'', location = Vec3 0.156 (- 0.005) 0\<rparr>,
    ''marker4'' \<mapsto> \<lparr>parent_frame = ''calcn_r'', location = Vec3 0.218 (- 0.005) 0\<rparr>,
    ''marker5'' \<mapsto> \<lparr>parent_frame = ''calcn_r'', location = Vec3 0.28 (- 0.005) 0\<rparr>],
     forces = forces exampleModel,
     gravity = Vec3 0 (- 9.80665) 0,
     system = Some ()\<rparr>"
proof -
  have "parameterizedModel exampleLib this exampleX
      = initSystem exampleLib (snd (applyParametersToModel this exampleX
          (initSystem exampleLib exampleModel)))"
    by (simp only: parameterizedModel_def assms(3))
  then show ?thesis
    unfolding example_applied [OF assms(1,2)] by (simp add: initSystem_def)
qed

lemma example_simulatedFy:
  assumes "m_numContacts this = 6" and "forceScalingFactor this = 100000000"
    and "m_model this = initSystem exampleLib exampleModel"
  shows "simulatedFy exampleLib (parameterizedModel exampleLib this exampleX)
           \<lparr>getTime = time, coordinates = [ty], speeds = [vy]\<rparr>
         = 6 * contact_force 50000000 (ty - 0.005)"
  unfolding example_parameterizedModel [OF assms]
  by (simp add: simulatedFy_def exampleModel_forces exampleLib_def)

lemma exampleLib_simps:
  "getTotalMass exampleLib model state = 75" "realizeVelocity exampleLib model state = state"
  by (simp_all add: exampleLib_def)

lemma example_weight:
  assumes "m_numContacts this = 6" and "forceScalingFactor this = 100000000"
    and "m_model this = initSystem exampleLib exampleModel"
  shows "75 * 9.80665 = getTotalMass exampleLib (parameterizedModel exampleLib this exampleX)
            (hd exampleTraj)
          * vec_norm (gravity (parameterizedModel exampleLib this exampleX))"
  unfolding example_parameterizedModel [OF assms] exampleLib_simps
  by (simp add: vec_norm_vertical del: vec_norm.simps)

lemma example_value:
  assumes "m_numContacts this = 6" and "forceScalingFactor this = 100000000"
    and "m_model this = initSystem exampleLib exampleModel"
  shows "(\<Sum>state\<leftarrow>exampleTraj.
             (simulatedFy exampleLib (parameterizedModel exampleLib this exampleX) state
                - FySpline (getTime (realizeVelocity exampleLib
                    (parameterizedModel exampleLib this exampleX) state)))\<^sup>2)
         / (75 * 9.80665 * real (length exampleTraj))
       = ((0 - FySpline 0)\<^sup>2 + (- 6 - FySpline 0.01)\<^sup>2) / (75 * 9.80665 * 2)"
  unfolding exampleTraj_def exampleLib_simps
  by (simp add: example_simulatedFy [OF assms] contact_force_eq)

lemma example_value_zero:
  assumes "m_numContacts this = 6" and "forceScalingFactor this = 100000000"
    and "m_model this = initSystem exampleLib exampleModel"
  shows "(\<Sum>state\<leftarrow>exampleTraj.
             (simulatedFy exampleLib (parameterizedModel exampleLib this exampleX) state)\<^sup>2)
         / (75 * 9.80665 * real (length exampleTraj))
       = 36 / (75 * 9.80665 * 2)"
  unfolding exampleTraj_def
  by (simp add: example_simulatedFy [OF assms] contact_force_eq)

lemma exampleProblem_fields:
  "m_numContacts (new_ContactCalibration exampleLib exampleModel statesTraj 6 FySpline) = 6"
  "forceScalingFactor (new_ContactCalibration exampleLib exampleModel statesTraj 6 FySpline)
     = 100000000"
  "m_model (new_ContactCalibration exampleLib exampleModel statesTraj 6 FySpline)
     = initSystem exampleLib exampleModel"
  by (simp_all add: new_ContactCalibration_def)

lemma exampleProblem_workingModels: "m_workingModels exampleProblem = Map.empty"
  by (simp add: exampleProblem_def new_ContactCalibration_def)

lemma exampleAfterFirst_working:
  "m_workingModels exampleAfterFirst 3
     = Some (modelAfter exampleLib exampleProblem exampleX (initSystem exampleLib (m_model exampleProblem)))"
  by (simp add: exampleAfterFirst_def calc_objective_snd acquireWorkingModel_self
      exampleProblem_workingModels)


lemma example_modelAfter:
  assumes "m_numContacts this = 6" and "forceScalingFactor this = 100000000"
    and "m_model this = initSystem exampleLib exampleModel"
  shows "modelAfter exampleLib this exampleX (m_model this)
           = parameterizedModel exampleLib this exampleX"
  unfolding modelAfter_def parameterizedModel_def assms(3) example_applied [OF assms(1,2)]
  by simp

lemma exampleAfterFirst_fields:
  "m_numContacts exampleAfterFirst = 6" "forceScalingFactor exampleAfterFirst = 100000000"
  "m_model exampleAfterFirst = initSystem exampleLib exampleModel"
  by (simp_all add: exampleAfterFirst_def calc_objective_snd exampleProblem_def
      new_ContactCalibration_def)

lemma exampleExecution_executes: "executes exampleLib (initially exampleProblem) exampleExecution"
proof -
  let ?s0 = "initially exampleProblem"
  let ?s1 = "\<lparr>problem = snd (calc_objective exampleLib exampleProblem 3 exampleX),
      control = (\<lambda>t. Idle)
        (3 := Returned exampleX (fst (calc_objective exampleLib exampleProblem 3 exampleX))),
      created = (\<lambda>t. 0)(3 := 1)\<rparr>"
  have "executes exampleLib ?s0
     \<lparr>problem = snd (calc_objective exampleLib (problem ?s0) 3 exampleX),
      control = (control ?s0)
        (3 := Returned exampleX (fst (calc_objective exampleLib (problem ?s0) 3 exampleX))),
      created = (if m_workingModels (problem ?s0) 3 = None
                 then (created ?s0)(3 := Suc (created ?s0 3)) else created ?s0)\<rparr>"
    by (rule calc_objective_executes) (simp add: initially_def)
  then have e1: "executes exampleLib (initially exampleProblem) ?s1"
    by (simp add: initially_def exampleProblem_workingModels)
  have "executes exampleLib ?s1
     \<lparr>problem = snd (calc_objective exampleLib (problem ?s1) 5 boundaryX),
      control = (control ?s1)
        (5 := Returned boundaryX (fst (calc_objective exampleLib (problem ?s1) 5 boundaryX))),
      created = (if m_workingModels (problem ?s1) 5 = None
                 then (created ?s1)(5 := Suc (created ?s1 5)) else created ?s1)\<rparr>"
    by (rule calc_objective_executes) simp
  moreover have "m_workingModels (snd (calc_objective exampleLib exampleProblem 3 exampleX)) 5 = None"
    by (simp add: calc_objective_snd acquireWorkingModel_other exampleProblem_workingModels)
  ultimately have "executes exampleLib ?s1 exampleExecution"
    by (simp add: exampleExecution_def performAll_def exampleAfterFirst_def)
  then show ?thesis
    using e1 by (rule executes_trans)
qed




section \<open>The objective\<close>

text \<open>
  Claim C3. The value \<^verbatim>\<open>calc_objective\<close> returns for \<open>x\<close> (or the failure
  it ends in) is the same after every sequence of earlier evaluations and diagnostic
  comparisons, with any parameters and on any threads, and on every thread: it is the
  value of the first evaluation on a freshly constructed problem. In particular a
  second call with the same \<open>x\<close> on the same thread, right after the first, returns
  what the first returned. Whatever a call leaves in the working models has no
  influence on a later result. The same holds when the statements of calls on several
  threads are interleaved in any order: every result a thread returns is that value.
\<close>

theorem calc_objective_deterministic:
  "fst (calc_objective lib
          (performAll lib ops (new_ContactCalibration lib model statesTraj n FySpline)) t x)
     = fst (calc_objective lib (new_ContactCalibration lib model statesTraj n FySpline) t' x)
   \<and> fst (calc_objective lib
          (snd (calc_objective lib
             (performAll lib ops (new_ContactCalibration lib model statesTraj n FySpline)) t x))
          t x)
     = fst (calc_objective lib
          (performAll lib ops (new_ContactCalibration lib model statesTraj n FySpline)) t x)
   \<and> (executes lib (initially (new_ContactCalibration lib model statesTraj n FySpline)) s
        \<and> control s t = Returned x r
        \<longrightarrow> r = fst (calc_objective lib
                      (new_ContactCalibration lib model statesTraj n FySpline) t' x))"
proof -
  let ?cal = "new_ContactCalibration lib model statesTraj n FySpline"
  have c: "consistent (initSystem lib model) ?cal"
    by (rule new_ContactCalibration_consistent)
  have h: "fst (calc_objective lib (performAll lib ops' ?cal) t'' x)
             = objectiveOf lib ?cal (initSystem lib model) x" for ops' t''
    using c by (rule calc_objective_after_history)
  have "fst (calc_objective lib ?cal t' x) = objectiveOf lib ?cal (initSystem lib model) x"
    using h [of "[]" t'] by (simp add: performAll_def)
  with h [of ops t] h [of "ops @ [Evaluate t x]" t]
  have "fst (calc_objective lib (performAll lib ops ?cal) t x) = fst (calc_objective lib ?cal t' x)"
    and "fst (calc_objective lib (snd (calc_objective lib (performAll lib ops ?cal) t x)) t x)
     = fst (calc_objective lib (performAll lib ops ?cal) t x)"
    by (simp_all add: performAll_Evaluate)
  moreover have "r = fst (calc_objective lib ?cal t' x)"
    if "executes lib (initially ?cal) s \<and> control s t = Returned x r"
    using that executes_result [OF _ new_ContactCalibration_workingModels] by blast
  ultimately show ?thesis
    by blast
qed

text \<open>
  In the worked example the value for the parameters 0.5 on thread 0, after an
  evaluation on thread 1 and a diagnostic comparison, is the value of a fresh problem
  on thread 7; and the result thread 5 returned in the execution above is the value of
  a fresh problem on thread 0.
\<close>

theorem calc_objective_deterministic_witness:
  "fst (calc_objective exampleLib
          (performAll exampleLib [Evaluate 1 boundaryX, PrintComparison boundaryX ''comparison.sto'']
             exampleProblem) 0 exampleX)
     = fst (calc_objective exampleLib exampleProblem 7 exampleX)
   \<and> fst (calc_objective exampleLib exampleAfterFirst 5 boundaryX)
     = fst (calc_objective exampleLib exampleProblem 0 boundaryX)"
proof -
  note d = calc_objective_deterministic [where lib = exampleLib and model = exampleModel
      and statesTraj = exampleTraj and n = 6 and FySpline = "\<lambda>time. 0"]
  have a: "fst (calc_objective exampleLib
          (performAll exampleLib [Evaluate 1 boundaryX, PrintComparison boundaryX ''comparison.sto'']
             exampleProblem) 0 exampleX)
     = fst (calc_objective exampleLib exampleProblem 7 exampleX)"
    using d [where ops = "[Evaluate 1 boundaryX, PrintComparison boundaryX ''comparison.sto'']"
        and t = 0 and x = exampleX and t' = 7, THEN conjunct1]
    by (simp add: exampleProblem_def)
  have "control exampleExecution 5
      = Returned boundaryX (fst (calc_objective exampleLib exampleAfterFirst 5 boundaryX))"
    by (simp add: exampleExecution_def)
  with exampleExecution_executes
  have b: "fst (calc_objective exampleLib exampleAfterFirst 5 boundaryX)
     = fst (calc_objective exampleLib exampleProblem 0 boundaryX)"
    using d [where s = exampleExecution and t = 5 and x = boundaryX and t' = 0
        and r = "fst (calc_objective exampleLib exampleAfterFirst 5 boundaryX)",
        THEN conjunct2, THEN conjunct2]
    by (simp add: exampleProblem_def)
  from a b show ?thesis ..
qed


text \<open>
  Claim C1. Let the model have the markers and contact elements of \<open>n\<close> contacts,
  \<open>x\<close> have length \<open>2 \<cdot> n\<close>, the trajectory be non-empty and the total weight
  (total mass at the first state times the norm of gravity) be non-zero. Then, after
  any earlier operations and on any thread, \<^verbatim>\<open>calc_objective\<close> returns the sum
  over the states of the squared difference between the vertical contact force summed
  over all contact elements and the experimental force at the state's time, divided by
  the total weight times the number of states; the forces and the weight are those of
  the model with \<open>x\<close> applied. With an experimental force that is zero everywhere
  this is the sum of the squared simulated forces divided by the same number.
\<close>

theorem calc_objective_value:
  assumes "validModel n model" and "length x = 2 * n" and "statesTraj \<noteq> []"
    and "this = new_ContactCalibration lib model statesTraj n FySpline"
    and "model_x = parameterizedModel lib this x"
    and "totalWeight = getTotalMass lib model_x (hd statesTraj) * vec_norm (gravity model_x)"
    and "totalWeight \<noteq> 0"
  shows "fst (calc_objective lib (performAll lib ops this) t x)
      = Inr ((\<Sum>state\<leftarrow>statesTraj.
               (simulatedFy lib model_x state
                  - FySpline (getTime (realizeVelocity lib model_x state)))\<^sup>2)
             / (totalWeight * real (length statesTraj)))
    \<and> ((\<forall>time. FySpline time = 0) \<longrightarrow>
         fst (calc_objective lib (performAll lib ops this) t x)
           = Inr ((\<Sum>state\<leftarrow>statesTraj. (simulatedFy lib model_x state)\<^sup>2)
                  / (totalWeight * real (length statesTraj))))"
proof -
  have fields: "m_numContacts this = n" "m_statesTraj this = statesTraj"
    "m_FySpline this = FySpline" "m_model this = initSystem lib model"
    using assms(4) by (simp_all add: new_ContactCalibration_def)
  have "consistent (initSystem lib model) this"
    unfolding assms(4) by (rule new_ContactCalibration_consistent)
  then have "fst (calc_objective lib (performAll lib ops this) t x)
      = objectiveOf lib this (initSystem lib model) x"
    by (rule calc_objective_after_history)
  moreover have "fst (applyParametersToModel this x (initSystem lib model)) = None"
    using assms(1,2) fields
    by (intro applyParametersToModel_succeeds) (simp_all add: validModel_initSystem)
  ultimately have "fst (calc_objective lib (performAll lib ops this) t x)
      = normalizedError lib this model_x"
    using fields by (simp add: objectiveOf_eq assms(5) parameterizedModel_def)
  also have "\<dots> = Inr (sumSquaredError lib FySpline model_x statesTraj
                        / (totalWeight * real (length statesTraj)))"
    using assms(3,6,7) fields by (simp add: normalizedError_def)
  finally have main: "fst (calc_objective lib (performAll lib ops this) t x)
      = Inr ((\<Sum>state\<leftarrow>statesTraj.
               (simulatedFy lib model_x state
                  - FySpline (getTime (realizeVelocity lib model_x state)))\<^sup>2)
             / (totalWeight * real (length statesTraj)))"
    by (simp add: sumSquaredError_eq)
  then show ?thesis
    by simp
qed

text \<open>
  In the worked example every parameter is 0.5, so each contact point sits 0.005 below
  the origin of its body. At the first state the body is 0.005 above the ground and the
  six contact forces are 0; at the second it is 1.005 above and each force is - 1. With
  no experimental force the objective is \<open>36 / (75 \<cdot> 9.80665 \<cdot> 2)\<close>, also after an
  evaluation on another thread and a diagnostic comparison; with the experimental
  force \<open>600 \<cdot> time\<close> it is \<open>144 / (75 \<cdot> 9.80665 \<cdot> 2)\<close>.
\<close>

theorem calc_objective_value_witness:
  "fst (calc_objective exampleLib
          (performAll exampleLib
             [Evaluate 1 boundaryX, PrintComparison boundaryX ''comparison.sto'']
             exampleProblem) 0 exampleX)
     = Inr (36 / (75 * 9.80665 * 2))
   \<and> fst (calc_objective exampleLib
          (new_ContactCalibration exampleLib exampleModel exampleTraj 6 exampleSpline) 0 exampleX)
     = Inr (144 / (75 * 9.80665 * 2))"
proof -
  have len: "length exampleX = 2 * 6" "exampleTraj \<noteq> []"
    by (simp_all add: exampleX_def exampleTraj_def)
  have pos: "(75 :: double) * 9.80665 \<noteq> 0"
    by simp
  let ?P = "new_ContactCalibration exampleLib exampleModel exampleTraj 6 (\<lambda>time. 0)"
  let ?Q = "new_ContactCalibration exampleLib exampleModel exampleTraj 6 exampleSpline"
  note a = calc_objective_value [where lib = exampleLib and model = exampleModel and n = 6
      and x = exampleX and statesTraj = exampleTraj and FySpline = "\<lambda>time. 0"
      and ops = "[Evaluate 1 boundaryX, PrintComparison boundaryX ''comparison.sto'']"
      and t = 0 and totalWeight = "75 * 9.80665",
      OF exampleModel_valid len refl refl example_weight [OF exampleProblem_fields] pos]
  note b = calc_objective_value [where lib = exampleLib and model = exampleModel and n = 6
      and x = exampleX and statesTraj = exampleTraj and FySpline = exampleSpline
      and ops = "[]" and t = 0 and totalWeight = "75 * 9.80665",
      OF exampleModel_valid len refl refl example_weight [OF exampleProblem_fields] pos]
  have "fst (calc_objective exampleLib
          (performAll exampleLib
             [Evaluate 1 boundaryX, PrintComparison boundaryX ''comparison.sto''] ?P) 0 exampleX)
     = Inr (36 / (75 * 9.80665 * 2))"
    using a [THEN conjunct2]
    unfolding example_value_zero [OF exampleProblem_fields] by simp
  moreover have "fst (calc_objective exampleLib ?Q 0 exampleX) = Inr (144 / (75 * 9.80665 * 2))"
    using b [THEN conjunct1]
    unfolding example_value [where FySpline = exampleSpline, OF exampleProblem_fields]
    by (simp add: exampleSpline_def performAll_def)
  ultimately show ?thesis
    by (simp add: exampleProblem_def)
qed

section \<open>Infinite and not-a-number values in the objective\<close>











text \<open>
  Over these values \<^verbatim>\<open>calc_objective\<close> leaves the members it leaves over the
  reals, and on finite values it returns what it returns over the reals.
\<close>

lemma calc_objectiveX_snd:
  "snd (calc_objectiveX lib libx this statesTraj FySpline t x) = snd (calc_objective lib this t x)"
proof -
  obtain e model1 where
    "applyParametersToModel this x (the (acquireWorkingModel lib this t t)) = (e, model1)"
    by (cases "applyParametersToModel this x (the (acquireWorkingModel lib this t t))")
  then show ?thesis
    by (cases e) (simp_all add: calc_objectiveX_def calc_objective_def Let_def)
qed

lemma calc_objectiveX_fst:
  "fst (calc_objectiveX lib libx this statesTraj FySpline t x)
     = (case fst (applyParametersToModel this x (the (acquireWorkingModel lib this t t))) of
          Some e \<Rightarrow> Inl e
        | None \<Rightarrow> normalizedErrorX libx statesTraj FySpline
            (initSystem lib (snd (applyParametersToModel this x
               (the (acquireWorkingModel lib this t t))))))"
proof -
  obtain e model1 where
    "applyParametersToModel this x (the (acquireWorkingModel lib this t t)) = (e, model1)"
    by (cases "applyParametersToModel this x (the (acquireWorkingModel lib this t t))")
  then show ?thesis
    by (cases e) (simp_all add: calc_objectiveX_def normalizedErrorX_def Let_def)
qed



lemma the_finite_Finite [simp]: "the_finite \<circ> Finite = id"
  by (rule ext) simp

lemma state_of_xstate [simp]: "state_of (xstate state) = state"
  by (simp add: state_of_def xstate_def)

lemma getTimeX_xstate: "getTimeX (xstate state) = Finite (getTime state)"
  by (simp add: xstate_def)

lemma xvec_get_xvec [simp]: "xvec_get (xvec v) i = Finite (vec_get v i)"
  by (cases v) simp

lemma fold_xadd_Finite:
  "fold (\<lambda>y acc. xadd acc (Finite (f y))) ys (Finite a) = Finite (fold (\<lambda>y acc. acc + f y) ys a)"
  by (induction ys arbitrary: a) simp_all

lemma sumContactForceYX_finite:
  "sumContactForceYX (finiteLib lib) model contacts (xstate state)
     = Finite (sumContactForceY lib model contacts state)"
  by (simp add: sumContactForceYX_def sumContactForceY_def finiteLib_def fold_xadd_Finite)

lemma sumSquaredErrorX_finite:
  "sumSquaredErrorX (finiteLib lib) (finiteSpline FySpline) model (map xstate statesTraj)
     = Finite (sumSquaredError lib FySpline model statesTraj)"
proof -
  have "realizeVelocityX (finiteLib lib) model (xstate state)
      = xstate (realizeVelocity lib model state)" for state
    by (simp add: finiteLib_def)
  then have "sumSquaredErrorX (finiteLib lib) (finiteSpline FySpline) model (map xstate statesTraj)
      = fold (\<lambda>state obj_value. xadd obj_value
           (Finite ((sumContactForceY lib model (forces model) (realizeVelocity lib model state)
                     - FySpline (getTime (realizeVelocity lib model state)))\<^sup>2)))
          statesTraj (Finite 0)"
    by (simp add: sumSquaredErrorX_def fold_map comp_def Let_def sumContactForceYX_finite
        finiteSpline_def getTimeX_xstate xsub_def xsquare_def power2_eq_square)
  also have "\<dots> = Finite (sumSquaredError lib FySpline model statesTraj)"
    unfolding fold_xadd_Finite by (simp add: sumSquaredError_def Let_def)
  finally show ?thesis .
qed

lemma normalizedErrorX_finite:
  assumes "normalizedError lib this model \<noteq> Inl NotFinite"
  shows "normalizedErrorX (finiteLib lib) (map xstate (m_statesTraj this))
           (finiteSpline (m_FySpline this)) model
         = map_sum id Finite (normalizedError lib this model)"
proof (cases "m_statesTraj this = []")
  case True
  then show ?thesis
    by (simp add: normalizedErrorX_def normalizedError_def)
next
  case False
  with assms have nz: "getTotalMass lib model (hd (m_statesTraj this)) * vec_norm (gravity model)
                * real (length (m_statesTraj this)) \<noteq> 0"
    by (auto simp: normalizedError_def split: if_splits)
  from False have "getTotalMassX (finiteLib lib) model (hd (map xstate (m_statesTraj this)))
      = Finite (getTotalMass lib model (hd (m_statesTraj this)))"
    by (simp add: finiteLib_def hd_map)
  with False nz show ?thesis
    by (simp add: normalizedErrorX_def normalizedError_def sumSquaredErrorX_finite
        del: vec_norm.simps)
qed

lemma calc_objectiveX_finite:
  assumes "fst (calc_objective lib this t x) \<noteq> Inl NotFinite"
  shows "fst (calc_objectiveX lib (finiteLib lib) this (map xstate (m_statesTraj this))
                (finiteSpline (m_FySpline this)) t x)
         = map_sum id Finite (fst (calc_objective lib this t x))"
proof (cases "fst (applyParametersToModel this x (the (acquireWorkingModel lib this t t)))")
  case (Some e)
  then show ?thesis
    by (simp add: calc_objectiveX_fst calc_objective_fst objectiveOf_eq)
next
  case None
  with assms show ?thesis
    by (simp add: calc_objectiveX_fst calc_objective_fst objectiveOf_eq normalizedErrorX_finite)
qed










section \<open>The working models\<close>



text \<open>
  Claim C5 (as amended). \<^verbatim>\<open>calc_objective\<close> on thread \<open>t\<close> writes one member,
  and of it one entry: the working model of \<open>t\<close>, which is created from
  \<^verbatim>\<open>m_model\<close> if the thread has none and then carries the parameters applied;
  \<^verbatim>\<open>m_model\<close> and everything else stay as they were. \<^verbatim>\<open>printContactComparison\<close>
  leaves the working models as they were and writes \<^verbatim>\<open>m_model\<close> itself, applying
  the parameters to it.
\<close>

theorem operations_frame:
  "snd (calc_objective lib this t x)
     = this\<lparr>m_workingModels := (m_workingModels this)
          (t \<mapsto> modelAfter lib this x
                 (case m_workingModels this t of
                    None \<Rightarrow> initSystem lib (m_model this)
                  | Some working \<Rightarrow> working))\<rparr>
   \<and> m_model (snd (calc_objective lib this t x)) = m_model this
   \<and> snd (printContactComparison lib this x filename)
       = this\<lparr>m_model := modelAfter lib this x (m_model this)\<rparr>
   \<and> m_workingModels (snd (printContactComparison lib this x filename)) = m_workingModels this"
proof -
  have "(acquireWorkingModel lib this t)(t \<mapsto> v) = (m_workingModels this)(t \<mapsto> v)" for v
    by (simp add: acquireWorkingModel_def)
  then show ?thesis
    by (simp add: calc_objective_snd printContactComparison_snd acquireWorkingModel_self)
qed

text \<open>
  The claim as stated fails for the diagnostic comparison: in the worked example, after
  a working model has been taken for thread 3, \<^verbatim>\<open>printContactComparison\<close> moves
  marker 0 of \<^verbatim>\<open>m_model\<close> from the height - 0.027 to - 0.005.
\<close>

theorem printContactComparison_mutates_m_model:
  "m_workingModels exampleAfterFirst 3 \<noteq> None
   \<and> markers (m_model exampleAfterFirst) ''marker0''
       = Some \<lparr>parent_frame = ''calcn_r'', location = Vec3 (- 0.03) (- 0.027) 0\<rparr>
   \<and> markers (m_model (snd (printContactComparison exampleLib exampleAfterFirst exampleX
          ''comparison.sto''))) ''marker0''
       = Some \<lparr>parent_frame = ''calcn_r'', location = Vec3 (- 0.03) (- 0.005) 0\<rparr>
   \<and> m_model (snd (printContactComparison exampleLib exampleAfterFirst exampleX
          ''comparison.sto'')) \<noteq> m_model exampleAfterFirst"
proof -
  have a: "m_workingModels exampleAfterFirst 3 \<noteq> None"
    by (simp add: exampleAfterFirst_working)
  have b: "markers (m_model exampleAfterFirst) ''marker0''
       = Some \<lparr>parent_frame = ''calcn_r'', location = Vec3 (- 0.03) (- 0.027) 0\<rparr>"
    by (simp add: exampleAfterFirst_fields initSystem_def exampleModel_markers)
  have "m_model (snd (printContactComparison exampleLib exampleAfterFirst exampleX
          ''comparison.sto'')) = parameterizedModel exampleLib exampleAfterFirst exampleX"
    by (simp add: printContactComparison_snd example_modelAfter [OF exampleAfterFirst_fields])
  then have c: "markers (m_model (snd (printContactComparison exampleLib exampleAfterFirst exampleX
          ''comparison.sto''))) ''marker0''
       = Some \<lparr>parent_frame = ''calcn_r'', location = Vec3 (- 0.03) (- 0.005) 0\<rparr>"
    by (simp add: example_parameterizedModel [OF exampleAfterFirst_fields])
  from b c have "markers (m_model (snd (printContactComparison exampleLib exampleAfterFirst exampleX
          ''comparison.sto''))) ''marker0'' \<noteq> markers (m_model exampleAfterFirst) ''marker0''"
    by simp
  then have d: "m_model (snd (printContactComparison exampleLib exampleAfterFirst exampleX
          ''comparison.sto'')) \<noteq> m_model exampleAfterFirst"
    by metis
  from a b c d show ?thesis
    by (intro conjI)
qed

section \<open>Reading the parameters back\<close>

text \<open>
  The literals, as binary64 numbers, are the values a C++ compiler gives them, each
  within half a unit in the last place of the decimal number; and on the bounds 0 and 1
  the height computed in binary64 is the lower and the upper bound itself.
\<close>

lemma b64_literals:
  "b64_value (b64_of_fraction (- 6) 100) = - 1080863910568919 / 2 ^ 54"
  "b64_value (b64_of_fraction 5 100) = 3602879701896397 / 2 ^ 56"
  "b64_value (b64_of_fraction 100000000 1) = 100000000"
  by code_simp+

lemma b64_literals_nearest:
  "\<bar>b64_value (b64_of_fraction (- 6) 100) - (- 0.06)\<bar> < 1 / 2 ^ 58"
  "\<bar>b64_value (b64_of_fraction 5 100) - 0.05\<bar> < 1 / 2 ^ 58"
  unfolding b64_literals by simp_all

lemma markerHeight64_bounds:
  "b64_value (markerHeight64 (0, 0)) = b64_value (b64_of_fraction (- 6) 100)"
  "b64_value (markerHeight64 (1, 0)) = b64_value (b64_of_fraction 5 100)"
  by code_simp+

lemma applied_height_inverse:
  assumes "validModel (m_numContacts this) model" and "length x = 2 * m_numContacts this"
    and "i < m_numContacts this"
  shows "x ! i = (vec_get (location (the (markers (snd (applyParametersToModel this x model))
           (marker_name i)))) 1 - (- 0.06)) / (0.05 - (- 0.06))"
  unfolding markerHeight_after [OF assms] physicalHeight_eq by simp

lemma applied_stiffness_inverse:
  assumes "validModel (m_numContacts this) model" and "length x = 2 * m_numContacts this"
    and "i < m_numContacts this" and "forceScalingFactor this \<noteq> 0"
  shows "x ! (m_numContacts this + i)
    = get_stiffness (forces (snd (applyParametersToModel this x model)) ! i)
        / forceScalingFactor this"
proof -
  have ok: "fst (applyParametersToModel this x model) = None"
    using assms(1,2) by (rule applyParametersToModel_succeeds)
  from assms(1,3) have j: "i < length (forces model)"
    by (simp add: validModel_def)
  from applyParametersToModel_force [OF ok j] assms(4) show ?thesis
    by simp
qed

text \<open>
  Claim C6 (as amended). In exact arithmetic the parameter mapping is invertible: on a
  model with the markers and contact elements of the problem, with a scale factor that
  is not zero and for \<open>x\<close> of length \<open>2 \<cdot> numContacts\<close>, every component of
  \<open>x\<close> is recovered from the quantities read back from the model, as
  \<open>x[i] = (height\<^sub>i - lower) / (upper - lower)\<close> and
  \<open>x[numContacts + i] = stiffness\<^sub>i / forceScalingFactor\<close>; so two parameter
  vectors that leave the same model are equal.
\<close>

theorem applyParametersToModel_invertible:
  assumes "validModel (m_numContacts this) model" and "forceScalingFactor this \<noteq> 0"
    and "length x = 2 * m_numContacts this"
  shows "(\<forall>i < m_numContacts this.
           x ! i = (vec_get (location (the (markers (snd (applyParametersToModel this x model))
                     (marker_name i)))) 1 - (- 0.06)) / (0.05 - (- 0.06))
           \<and> x ! (m_numContacts this + i)
               = get_stiffness (forces (snd (applyParametersToModel this x model)) ! i)
                   / forceScalingFactor this)
    \<and> (length x' = 2 * m_numContacts this
         \<and> applyParametersToModel this x' model = applyParametersToModel this x model
         \<longrightarrow> x' = x)"
proof (intro conjI allI impI)
  fix i
  assume i: "i < m_numContacts this"
  show "x ! i = (vec_get (location (the (markers (snd (applyParametersToModel this x model))
                     (marker_name i)))) 1 - (- 0.06)) / (0.05 - (- 0.06))"
    using assms(1,3) i by (rule applied_height_inverse)
  show "x ! (m_numContacts this + i)
               = get_stiffness (forces (snd (applyParametersToModel this x model)) ! i)
                   / forceScalingFactor this"
    using assms(1,3) i assms(2) by (rule applied_stiffness_inverse)
next
  let ?n = "m_numContacts this"
  assume a: "length x' = 2 * ?n \<and> applyParametersToModel this x' model = applyParametersToModel this x model"
  then have len: "length x' = 2 * ?n"
    and same: "applyParametersToModel this x' model = applyParametersToModel this x model"
    by simp_all
  show "x' = x"
  proof (rule nth_equalityI)
    show "length x' = length x"
      using len assms(3) by simp
  next
    fix j
    assume "j < length x'"
    with len have j: "j < 2 * ?n" by simp
    show "x' ! j = x ! j"
    proof (cases "j < ?n")
      case True
      from applied_height_inverse [OF assms(1) len True]
        applied_height_inverse [OF assms(1,3) True] same
      show ?thesis by simp
    next
      case False
      with j have i: "j - ?n < ?n" and eq: "j = ?n + (j - ?n)" by simp_all
      from applied_stiffness_inverse [OF assms(1) len i assms(2)]
        applied_stiffness_inverse [OF assms(1,3) i assms(2)] same
      have "x' ! (?n + (j - ?n)) = x ! (?n + (j - ?n))" by simp
      with eq show ?thesis by simp
    qed
  qed
qed

text \<open>
  In the worked example, component 2 and component 8 of the parameter vector are
  recovered from the height of marker 2 and the stiffness of contact element 2, and
  the parameter vector on the bounds leaves another model.
\<close>

theorem applyParametersToModel_invertible_witness:
  "exampleX ! 2
     = (vec_get (location (the (markers (snd (applyParametersToModel exampleProblem exampleX
          exampleModel)) ''marker2''))) 1 - (- 0.06)) / (0.05 - (- 0.06))
   \<and> exampleX ! 8
     = get_stiffness (forces (snd (applyParametersToModel exampleProblem exampleX exampleModel))
         ! 2) / 100000000
   \<and> applyParametersToModel exampleProblem boundaryX exampleModel
       \<noteq> applyParametersToModel exampleProblem exampleX exampleModel"
proof -
  have f: "forceScalingFactor exampleProblem \<noteq> 0" "forceScalingFactor exampleProblem = 100000000"
    by (simp_all add: exampleProblem_def new_ContactCalibration_def)
  have len: "length exampleX = 2 * m_numContacts exampleProblem"
    "length boundaryX = 2 * m_numContacts exampleProblem"
    by (simp_all add: exampleX_def boundaryX_def exampleProblem_numContacts)
  note inv = applyParametersToModel_invertible [OF exampleProblem_valid f(1) len(1),
      where x' = boundaryX]
  have "boundaryX \<noteq> exampleX"
    by (simp add: boundaryX_def exampleX_def)
  with inv [THEN conjunct2] len(2)
  have "applyParametersToModel exampleProblem boundaryX exampleModel
       \<noteq> applyParametersToModel exampleProblem exampleX exampleModel"
    by blast
  moreover have "2 < m_numContacts exampleProblem"
    by (simp add: exampleProblem_numContacts)
  with inv [THEN conjunct1] have "exampleX ! 2
     = (vec_get (location (the (markers (snd (applyParametersToModel exampleProblem exampleX
          exampleModel)) (marker_name 2)))) 1 - (- 0.06)) / (0.05 - (- 0.06))
     \<and> exampleX ! (m_numContacts exampleProblem + 2)
     = get_stiffness (forces (snd (applyParametersToModel exampleProblem exampleX exampleModel))
         ! 2) / forceScalingFactor exampleProblem"
    by blast
  ultimately show ?thesis
    by (simp add: marker_names exampleProblem_numContacts f(2))
qed

text \<open>
  The claim as stated, bit for bit in \<^verbatim>\<open>double\<close> arithmetic, fails: the normalized
  heights 0 and \<open>2\<^sup>-\<^sup>6\<^sup>0\<close> are different binary64 numbers in \<open>[0, 1]\<close>, and
  both give the marker the height \<^verbatim>\<open>-0.06\<close>; the normalized stiffnesses
  \<open>6755399441055745 / 2\<^sup>5\<^sup>3\<close> and \<open>6755399441055746 / 2\<^sup>5\<^sup>3\<close> (the two
  binary64 numbers after 0.75) both give the stiffness \<open>5033164800000001 / 2\<^sup>2\<^sup>6\<close>.
  Nothing read back from the model tells either pair apart.
\<close>

theorem markerHeight64_not_injective:
  "is_binary64 (0, 0) \<and> is_binary64 (1, - 60)
   \<and> b64_value (0, 0) = 0 \<and> b64_value (1, - 60) = 1 / 2 ^ 60
   \<and> b64_value (0, 0) \<noteq> b64_value (1, - 60)
   \<and> b64_value (markerHeight64 (0, 0)) = - 1080863910568919 / 2 ^ 54
   \<and> b64_value (markerHeight64 (1, - 60)) = - 1080863910568919 / 2 ^ 54
   \<and> is_binary64 (6755399441055745, - 53) \<and> is_binary64 (6755399441055746, - 53)
   \<and> 0 \<le> b64_value (6755399441055745, - 53) \<and> b64_value (6755399441055746, - 53) \<le> 1
   \<and> b64_value (6755399441055745, - 53) \<noteq> b64_value (6755399441055746, - 53)
   \<and> b64_value (stiffness64 (6755399441055745, - 53)) = 5033164800000001 / 2 ^ 26
   \<and> b64_value (stiffness64 (6755399441055746, - 53)) = 5033164800000001 / 2 ^ 26"
  by code_simp

end
